theory Spec2Isabelle
  imports Complex_Main
begin

section \<open>Python values and exceptions\<close>

text \<open>
  The values the program handles are the ones Python's JSON parser produces: \<open>None\<close>,
  booleans, integers, floats, strings, lists and dictionaries with string keys. A
  dictionary is an association list read with \<open>map_of\<close> (the first binding of a key is
  the dictionary's entry). Floats are the finite ones, carried as rationals. A string is
  the list of its UTF-8 bytes; a lone surrogate code point (U+D800 to U+DFFF), which a
  Python string can hold and UTF-8 cannot encode, is the three bytes that Python's
  \<open>surrogatepass\<close> handler writes for it: \<open>0xED\<close>, a byte from \<open>0xA0\<close> to \<open>0xBF\<close>, and a
  continuation byte.
\<close>

datatype json =
    JNull
  | JBool bool
  | JInt int
  | JFloat rat
  | JStr string
  | JList "json list"
  | JObj "(string \<times> json) list"

text \<open>
  The exceptions that the modelled statements can raise. \<open>HTTPException\<close> stands for what
  Flask's \<open>request.get_json()\<close> raises when it cannot deliver a JSON document
  (\<open>BadRequest\<close>, \<open>UnsupportedMediaType\<close>); \<open>OSError\<close> is raised by \<open>open\<close>, and
  \<open>UnicodeEncodeError\<close> by a write to a UTF-8 file. All are subclasses of \<open>Exception\<close>.
\<close>

datatype py_error =
  AttributeError | TypeError | KeyError | JSONDecodeError | HTTPException | OSError | UnicodeEncodeError

definition py_bind :: "py_error + 'a \<Rightarrow> ('a \<Rightarrow> py_error + 'b) \<Rightarrow> py_error + 'b" where
  "py_bind m f = (case m of Inl e \<Rightarrow> Inl e | Inr v \<Rightarrow> f v)"

text \<open>\<open>bool(v)\<close>: the truth value Python gives a value in \<open>if not v\<close>.\<close>

fun truthy :: "json \<Rightarrow> bool" where
  "truthy JNull = False"
| "truthy (JBool b) = b"
| "truthy (JInt i) = (i \<noteq> 0)"
| "truthy (JFloat x) = (x \<noteq> 0)"
| "truthy (JStr s) = (s \<noteq> [])"
| "truthy (JList xs) = (xs \<noteq> [])"
| "truthy (JObj d) = (d \<noteq> [])"

text \<open>\<open>d.get(key, default)\<close> on a dictionary.\<close>

definition dict_get :: "(string \<times> json) list \<Rightarrow> string \<Rightarrow> json \<Rightarrow> json" where
  "dict_get d k dflt = (case map_of d k of None \<Rightarrow> dflt | Some v \<Rightarrow> v)"

text \<open>\<open>v.get(key, default)\<close> on any value: only dictionaries have the method.\<close>

fun py_get :: "json \<Rightarrow> string \<Rightarrow> json \<Rightarrow> py_error + json" where
  "py_get (JObj d) k dflt = Inr (dict_get d k dflt)"
| "py_get _ k dflt = Inl AttributeError"

text \<open>\<open>v[key]\<close> with a string key.\<close>

fun py_item :: "json \<Rightarrow> string \<Rightarrow> py_error + json" where
  "py_item (JObj d) k = (case map_of d k of None \<Rightarrow> Inl KeyError | Some v \<Rightarrow> Inr v)"
| "py_item _ k = Inl TypeError"

text \<open>\<open>len(v)\<close>.\<close>

fun py_len :: "json \<Rightarrow> py_error + nat" where
  "py_len (JStr s) = Inr (length s)"
| "py_len (JList xs) = Inr (length xs)"
| "py_len (JObj d) = Inr (length d)"
| "py_len _ = Inl TypeError"

text \<open>
  The items \<open>for x in v\<close> visits: the elements of a list, the one-character strings of a
  string, the keys of a dictionary.
\<close>

fun py_iter :: "json \<Rightarrow> py_error + json list" where
  "py_iter (JList xs) = Inr xs"
| "py_iter (JStr s) = Inr (map (\<lambda>c. JStr [c]) s)"
| "py_iter (JObj d) = Inr (map (\<lambda>kv. JStr (fst kv)) d)"
| "py_iter _ = Inl TypeError"

text \<open>
  \<open>v[:100]\<close>: strings and lists can be sliced; a dictionary rejects the slice as a key
  (with \<open>TypeError\<close> or, from Python 3.12, \<open>KeyError\<close>), and the other values are not
  subscriptable.
\<close>

fun py_slice100 :: "json \<Rightarrow> py_error + json" where
  "py_slice100 (JStr s) = Inr (JStr (take 100 s))"
| "py_slice100 (JList xs) = Inr (JList (take 100 xs))"
| "py_slice100 _ = Inl TypeError"

text \<open>\<open>str(n)\<close> for a length, as the f-strings print it.\<close>

fun digit_char :: "nat \<Rightarrow> char" where
  "digit_char n = char_of (48 + n)"

fun str_nat :: "nat \<Rightarrow> string" where
  "str_nat n = (if n < 10 then [digit_char n] else str_nat (n div 10) @ [digit_char (n mod 10)])"

declare str_nat.simps [simp del]

section \<open>Authentication: \<open>verify_webhook_request\<close>\<close>

text \<open>
  \<open>API_KEY\<close> is what \<open>os.getenv\<close> returned at import time: \<open>None\<close> or a string. Of a
  request the handlers read two things: \<open>request.headers.get(name)\<close>, a string or
  \<open>None\<close>, and \<open>request.get_json()\<close>, which belongs to the web framework and either
  returns a value or raises.
\<close>

record request =
  headers :: "string \<rightharpoonup> string"
  get_json :: "py_error + json"

text \<open>
  \<open>bool(v)\<close> for a value that is \<open>None\<close> or a string, as in \<open>if not API_KEY\<close> and
  \<open>if not received_api_key\<close>. The standalone server tests \<open>not API_KEY\<close> at start-up
  (\<open>monitor.py\<close> lines 36 to 38) and exits; the serverless one tests it on every request.
\<close>

definition str_truthy :: "string option \<Rightarrow> bool" where
  "str_truthy v = (case v of None \<Rightarrow> False | Some s \<Rightarrow> s \<noteq> [])"

text \<open>\<open>monitor.py\<close>, \<open>verify_webhook_request\<close>: the flag and the message it returns.\<close>

definition verify_webhook_request :: "string option \<Rightarrow> (string \<rightharpoonup> string) \<Rightarrow> bool \<times> string" where
  "verify_webhook_request API_KEY hdrs =
     (let expected_api_key = API_KEY;
          received_api_key = hdrs ''X-API-Key''
      in if \<not> str_truthy received_api_key then
           (False, ''Missing X-API-Key header'')
         else if received_api_key \<noteq> expected_api_key then
           (False, ''Invalid API key'')
         else (True, ''Verified''))"

text \<open>
  \<open>api/webhook.py\<close>, \<open>verify_webhook_request\<close>: the serverless variant tests the key
  first, on every request.
\<close>

definition verify_webhook_request_sl :: "string option \<Rightarrow> (string \<rightharpoonup> string) \<Rightarrow> bool \<times> string" where
  "verify_webhook_request_sl API_KEY hdrs =
     (if \<not> str_truthy API_KEY then
        (False, ''API key not configured'')
      else
        (let expected_api_key = API_KEY;
             received_api_key = hdrs ''X-API-Key''
         in if \<not> str_truthy received_api_key then
              (False, ''Missing X-API-Key header'')
            else if received_api_key \<noteq> expected_api_key then
              (False, ''Invalid API key'')
            else (True, ''Verified'')))"

section \<open>Normalisation: \<open>process_tweet_data\<close>\<close>

text \<open>
  The dictionary literal of \<open>monitor.py\<close> lines 70 to 88, its sub-expressions evaluated
  in the order they are written.
\<close>

definition tweet_info :: "json \<Rightarrow> json \<Rightarrow> json \<Rightarrow> py_error + json" where
  "tweet_info rule_id rule_tag tweet =
     py_bind (py_get tweet ''id'' JNull) (\<lambda>t_id.
     py_bind (py_get tweet ''text'' (JStr '''')) (\<lambda>t_text.
     py_bind (py_bind (py_get tweet ''author'' (JObj [])) (\<lambda>a. py_get a ''id'' JNull)) (\<lambda>a_id.
     py_bind (py_bind (py_get tweet ''author'' (JObj [])) (\<lambda>a. py_get a ''username'' JNull)) (\<lambda>a_username.
     py_bind (py_bind (py_get tweet ''author'' (JObj [])) (\<lambda>a. py_get a ''name'' JNull)) (\<lambda>a_name.
     py_bind (py_get tweet ''created_at'' JNull) (\<lambda>t_created.
     py_bind (py_get tweet ''retweet_count'' (JInt 0)) (\<lambda>m_retweet.
     py_bind (py_get tweet ''like_count'' (JInt 0)) (\<lambda>m_like.
     py_bind (py_get tweet ''reply_count'' (JInt 0)) (\<lambda>m_reply.
     Inr (JObj
       [(''id'', t_id),
        (''text'', t_text),
        (''author'', JObj [(''id'', a_id), (''username'', a_username), (''name'', a_name)]),
        (''created_at'', t_created),
        (''metrics'', JObj [(''retweet_count'', m_retweet), (''like_count'', m_like),
                            (''reply_count'', m_reply)]),
        (''rule_info'', JObj [(''rule_id'', rule_id), (''rule_tag'', rule_tag)])]))))))))))"

text \<open>
  The same literal in \<open>api/webhook.py\<close> lines 56 to 75, which ends with
  \<open>'processed_at': datetime.now().isoformat()\<close>; \<open>now\<close> is that reading of the clock.
\<close>

definition tweet_info_sl :: "string \<Rightarrow> json \<Rightarrow> json \<Rightarrow> json \<Rightarrow> py_error + json" where
  "tweet_info_sl now rule_id rule_tag tweet =
     py_bind (py_get tweet ''id'' JNull) (\<lambda>t_id.
     py_bind (py_get tweet ''text'' (JStr '''')) (\<lambda>t_text.
     py_bind (py_bind (py_get tweet ''author'' (JObj [])) (\<lambda>a. py_get a ''id'' JNull)) (\<lambda>a_id.
     py_bind (py_bind (py_get tweet ''author'' (JObj [])) (\<lambda>a. py_get a ''username'' JNull)) (\<lambda>a_username.
     py_bind (py_bind (py_get tweet ''author'' (JObj [])) (\<lambda>a. py_get a ''name'' JNull)) (\<lambda>a_name.
     py_bind (py_get tweet ''created_at'' JNull) (\<lambda>t_created.
     py_bind (py_get tweet ''retweet_count'' (JInt 0)) (\<lambda>m_retweet.
     py_bind (py_get tweet ''like_count'' (JInt 0)) (\<lambda>m_like.
     py_bind (py_get tweet ''reply_count'' (JInt 0)) (\<lambda>m_reply.
     Inr (JObj
       [(''id'', t_id),
        (''text'', t_text),
        (''author'', JObj [(''id'', a_id), (''username'', a_username), (''name'', a_name)]),
        (''created_at'', t_created),
        (''metrics'', JObj [(''retweet_count'', m_retweet), (''like_count'', m_like),
                            (''reply_count'', m_reply)]),
        (''rule_info'', JObj [(''rule_id'', rule_id), (''rule_tag'', rule_tag)]),
        (''processed_at'', JStr now)]))))))))))"

text \<open>
  The two arguments of the per-tweet log line (\<open>monitor.py\<close> line 93):
  \<open>tweet_info['author']['username']\<close> and \<open>tweet_info['text'][:100]\<close>.
  The line only writes to the log, but evaluating its arguments can raise.
\<close>

definition log_tweet :: "json \<Rightarrow> py_error + unit" where
  "log_tweet info =
     py_bind (py_bind (py_item info ''author'') (\<lambda>a. py_item a ''username'')) (\<lambda>username.
     py_bind (py_bind (py_item info ''text'') py_slice100) (\<lambda>head.
     Inr ()))"

text \<open>The \<open>for tweet in tweets\<close> loop of \<open>monitor.py\<close>; \<open>processed_tweets\<close> is the accumulator.\<close>

fun process_loop :: "json \<Rightarrow> json \<Rightarrow> json list \<Rightarrow> json list \<Rightarrow> py_error + json list" where
  "process_loop rule_id rule_tag [] processed_tweets = Inr processed_tweets"
| "process_loop rule_id rule_tag (tweet # rest) processed_tweets =
     (case tweet_info rule_id rule_tag tweet of
        Inl e \<Rightarrow> Inl e
      | Inr info \<Rightarrow>
          (case log_tweet info of
             Inl e \<Rightarrow> Inl e
           | Inr u \<Rightarrow> process_loop rule_id rule_tag rest (processed_tweets @ [info])))"

text \<open>
  The loop of \<open>api/webhook.py\<close>. \<open>clock i\<close> is what \<open>datetime.now().isoformat()\<close> returns
  on its \<open>i\<close>-th call; the loop makes one call for each tweet.
\<close>

fun process_loop_sl ::
  "(nat \<Rightarrow> string) \<Rightarrow> nat \<Rightarrow> json \<Rightarrow> json \<Rightarrow> json list \<Rightarrow> json list \<Rightarrow> py_error + json list" where
  "process_loop_sl clock i rule_id rule_tag [] processed_tweets = Inr processed_tweets"
| "process_loop_sl clock i rule_id rule_tag (tweet # rest) processed_tweets =
     (case tweet_info_sl (clock i) rule_id rule_tag tweet of
        Inl e \<Rightarrow> Inl e
      | Inr info \<Rightarrow>
          (case log_tweet info of
             Inl e \<Rightarrow> Inl e
           | Inr u \<Rightarrow> process_loop_sl clock (Suc i) rule_id rule_tag rest (processed_tweets @ [info])))"

text \<open>A clock that stands still, for the examples below.\<close>

definition still_clock :: "string \<Rightarrow> nat \<Rightarrow> string" where
  "still_clock t i = t"

text \<open>The body of the \<open>try\<close> block of \<open>process_tweet_data\<close> (\<open>monitor.py\<close> lines 62 to 95).\<close>

definition process_tweet_data_try :: "json \<Rightarrow> py_error + json list" where
  "process_tweet_data_try webhook_data =
     py_bind (py_get webhook_data ''event_type'' JNull) (\<lambda>event_type.
     py_bind (py_get webhook_data ''rule_id'' JNull) (\<lambda>rule_id.
     py_bind (py_get webhook_data ''rule_tag'' JNull) (\<lambda>rule_tag.
     py_bind (py_get webhook_data ''tweets'' (JList [])) (\<lambda>tweets.
     py_bind (py_len tweets) (\<lambda>n.
     py_bind (py_iter tweets) (\<lambda>items.
     process_loop rule_id rule_tag items []))))))"

text \<open>\<open>process_tweet_data\<close> of \<open>monitor.py\<close>: \<open>except Exception\<close> returns a fresh empty list.\<close>

definition process_tweet_data :: "json \<Rightarrow> json list" where
  "process_tweet_data webhook_data =
     (case process_tweet_data_try webhook_data of Inl e \<Rightarrow> [] | Inr processed_tweets \<Rightarrow> processed_tweets)"

text \<open>The same two for \<open>api/webhook.py\<close> (lines 48 to 82 and 84 to 86).\<close>

definition process_tweet_data_sl_try :: "(nat \<Rightarrow> string) \<Rightarrow> json \<Rightarrow> py_error + json list" where
  "process_tweet_data_sl_try clock webhook_data =
     py_bind (py_get webhook_data ''event_type'' JNull) (\<lambda>event_type.
     py_bind (py_get webhook_data ''rule_id'' JNull) (\<lambda>rule_id.
     py_bind (py_get webhook_data ''rule_tag'' JNull) (\<lambda>rule_tag.
     py_bind (py_get webhook_data ''tweets'' (JList [])) (\<lambda>tweets.
     py_bind (py_len tweets) (\<lambda>n.
     py_bind (py_iter tweets) (\<lambda>items.
     process_loop_sl clock 0 rule_id rule_tag items []))))))"

definition process_tweet_data_sl :: "(nat \<Rightarrow> string) \<Rightarrow> json \<Rightarrow> json list" where
  "process_tweet_data_sl clock webhook_data =
     (case process_tweet_data_sl_try clock webhook_data of
        Inl e \<Rightarrow> [] | Inr processed_tweets \<Rightarrow> processed_tweets)"

text \<open>
  An entry of \<open>tweets\<close> is well formed when one pass of the loop body raises nothing: the
  entry is a dictionary (it has \<open>get\<close>), its \<open>author\<close> is missing or a dictionary (the
  nested \<open>get\<close>), and its \<open>text\<close> is missing, a string or a list (the slice of the
  log line). Lemmas \<open>well_formed_step\<close> and \<open>malformed_step\<close> show that this is exact.
\<close>

definition author_ok :: "(string \<times> json) list \<Rightarrow> bool" where
  "author_ok d = (case dict_get d ''author'' (JObj []) of JObj a \<Rightarrow> True | _ \<Rightarrow> False)"

definition text_ok :: "(string \<times> json) list \<Rightarrow> bool" where
  "text_ok d = (case dict_get d ''text'' (JStr '''') of JStr s \<Rightarrow> True | JList xs \<Rightarrow> True | _ \<Rightarrow> False)"

fun well_formed_tweet :: "json \<Rightarrow> bool" where
  "well_formed_tweet (JObj d) = (author_ok d \<and> text_ok d)"
| "well_formed_tweet _ = False"

text \<open>One pass of the loop body: build the record, then evaluate the log line.\<close>

definition tweet_step :: "json \<Rightarrow> json \<Rightarrow> json \<Rightarrow> py_error + json" where
  "tweet_step rule_id rule_tag tweet =
     py_bind (tweet_info rule_id rule_tag tweet) (\<lambda>info. py_bind (log_tweet info) (\<lambda>u. Inr info))"

definition tweet_step_sl :: "string \<Rightarrow> json \<Rightarrow> json \<Rightarrow> json \<Rightarrow> py_error + json" where
  "tweet_step_sl now rule_id rule_tag tweet =
     py_bind (tweet_info_sl now rule_id rule_tag tweet) (\<lambda>info. py_bind (log_tweet info) (\<lambda>u. Inr info))"

section \<open>Persistence: \<open>save_tweets_to_file\<close>\<close>

text \<open>
  A file is known by what \<open>json.load\<close> makes of it: the value it parses to, or an error
  (a file that is empty, cut short or otherwise not JSON). The file system maps names to
  files. A \<open>json.dump\<close> that completes leaves a file that parses to the value dumped.
\<close>

datatype file_content = Parsed json | Unparsable

type_synonym files = "string \<rightharpoonup> file_content"

definition json_load :: "file_content \<Rightarrow> py_error + json" where
  "json_load c = (case c of Parsed v \<Rightarrow> Inr v | Unparsable \<Rightarrow> Inl JSONDecodeError)"

text \<open>
  What the function cannot decide by itself is given by the environment of one call:
  whether \<open>open(filename, 'r')\<close> raises, whether \<open>open(filename, 'w')\<close> raises, and
  which exception, if any, \<open>json.dump(v, f, indent=2, ensure_ascii=False)\<close> raises on the
  value \<open>v\<close> before the file is closed (an encoding error, the encoder's recursion
  limit, a failed write). These are library and operating-system calls, not code of the
  repository.
\<close>

record io_env =
  open_read_raises :: bool
  open_write_raises :: bool
  json_dump_raises :: "json \<Rightarrow> py_error option"

text \<open>
  An environment for the examples. Both \<open>open\<close> calls succeed, and \<open>json.dump\<close> raises
  on exactly the values that hold a lone surrogate in a string or a key: with
  \<open>ensure_ascii=False\<close> the string is written as it is, and the UTF-8 codec of the file
  refuses it. Such a string reaches the program as a JSON escape of a single surrogate.
\<close>

fun has_surrogate :: "string \<Rightarrow> bool" where
  "has_surrogate (a # b # s) =
     (a = CHR 0xED \<and> (0xA0::nat) \<le> of_char b \<and> (of_char b::nat) \<le> 0xBF \<or> has_surrogate (b # s))"
| "has_surrogate s = False"

fun utf8_encodable :: "json \<Rightarrow> bool" where
  "utf8_encodable (JStr s) = (\<not> has_surrogate s)"
| "utf8_encodable (JList xs) = list_all utf8_encodable xs"
| "utf8_encodable (JObj d) = list_all (\<lambda>kv. \<not> has_surrogate (fst kv) \<and> utf8_encodable (snd kv)) d"
| "utf8_encodable v = True"

definition utf8_io :: io_env where
  "utf8_io =
     \<lparr>open_read_raises = False, open_write_raises = False,
      json_dump_raises = (\<lambda>v. if utf8_encodable v then None else Some UnicodeEncodeError)\<rparr>"

text \<open>\<open>v.extend(items)\<close>: a list method.\<close>

fun py_extend :: "json \<Rightarrow> json list \<Rightarrow> py_error + json" where
  "py_extend (JList xs) items = Inr (JList (xs @ items))"
| "py_extend _ items = Inl AttributeError"

text \<open>
  The name of the day's file; \<open>today\<close> is \<open>datetime.now().strftime('%Y%m%d')\<close>.
\<close>

definition tweets_filename :: "string \<Rightarrow> string" where
  "tweets_filename today = ''tweets_'' @ today @ ''.json''"

text \<open>
  The body of the \<open>try\<close> block of \<open>save_tweets_to_file\<close> (\<open>monitor.py\<close> lines 106 to
  121). The result is the file system after a normal end, or the exception raised together
  with the file system it leaves behind. Up to \<open>open(filename, 'w')\<close> an exception leaves
  the files as they were. That call truncates the day's file, so an exception raised by
  \<open>json.dump\<close> afterwards leaves a file that holds at most the beginning of a JSON list,
  which \<open>json.load\<close> rejects.
\<close>

definition save_tweets_try :: "io_env \<Rightarrow> string \<Rightarrow> files \<Rightarrow> json list \<Rightarrow> (py_error \<times> files) + files" where
  "save_tweets_try io today fs tweets =
     (let filename = tweets_filename today in
      case (case fs filename of
              None \<Rightarrow> Inr (JList [])
            | Some c \<Rightarrow> if open_read_raises io then Inl OSError else json_load c) of
        Inl e \<Rightarrow> Inl (e, fs)
      | Inr existing_tweets \<Rightarrow>
          (case py_extend existing_tweets tweets of
             Inl e \<Rightarrow> Inl (e, fs)
           | Inr existing_tweets \<Rightarrow>
               if open_write_raises io then Inl (OSError, fs)
               else
                 (case json_dump_raises io existing_tweets of
                    Some e \<Rightarrow> Inl (e, fs(filename \<mapsto> Unparsable))
                  | None \<Rightarrow> Inr (fs(filename \<mapsto> Parsed existing_tweets)))))"

text \<open>
  \<open>save_tweets_to_file\<close>: the file system afterwards and the value returned. The handler
  of \<open>except Exception\<close> only logs, so the files stay as the exception left them. The
  function has no \<open>return\<close> statement, so on both paths it returns \<open>None\<close>.
\<close>

definition save_tweets_to_file :: "io_env \<Rightarrow> string \<Rightarrow> files \<Rightarrow> json list \<Rightarrow> files \<times> json" where
  "save_tweets_to_file io today fs tweets =
     (case save_tweets_try io today fs tweets of
        Inl (e, fs') \<Rightarrow> (fs', JNull)
      | Inr fs' \<Rightarrow> (fs', JNull))"

section \<open>The request handler: \<open>webhook_handler\<close>\<close>

text \<open>
  A response is the pair the view returns: the JSON body and the status code.
  \<open>get_json req\<close> is the outcome of \<open>request.get_json()\<close>, a value or an exception of the
  framework.
\<close>

type_synonym response = "json \<times> nat"

text \<open>\<open>webhook_handler\<close> of \<open>monitor.py\<close>: the response and the file system afterwards.\<close>

definition webhook_handler ::
  "string option \<Rightarrow> io_env \<Rightarrow> string \<Rightarrow> request \<Rightarrow> files \<Rightarrow> response \<times> files" where
  "webhook_handler API_KEY io today req fs =
     (let (is_valid, message) = verify_webhook_request API_KEY (headers req) in
      if \<not> is_valid then ((JObj [(''error'', JStr ''Unauthorized'')], 401), fs)
      else
        (case get_json req of
           Inl e \<Rightarrow> ((JObj [(''error'', JStr ''Internal server error'')], 500), fs)
         | Inr webhook_data \<Rightarrow>
             if \<not> truthy webhook_data then
               ((JObj [(''error'', JStr ''No JSON data provided'')], 400), fs)
             else
               (let processed_tweets = process_tweet_data webhook_data in
                if processed_tweets \<noteq> [] then
                  ((JObj [(''status'', JStr ''success''),
                          (''message'', JStr (''Processed '' @ str_nat (length processed_tweets) @ '' tweets'')),
                          (''tweets_count'', JInt (int (length processed_tweets)))], 200),
                   fst (save_tweets_to_file io today fs processed_tweets))
                else
                  ((JObj [(''status'', JStr ''success''),
                          (''message'', JStr ''No tweets to process'')], 200), fs))))"

text \<open>
  \<open>webhook_handler\<close> of \<open>api/webhook.py\<close>: nothing is stored; every response but the 401
  and the 400 carries \<open>timestamp\<close>, the handler's own reading of the clock.
\<close>

definition webhook_handler_sl :: "string option \<Rightarrow> (nat \<Rightarrow> string) \<Rightarrow> string \<Rightarrow> request \<Rightarrow> response" where
  "webhook_handler_sl API_KEY clock timestamp req =
     (let (is_valid, message) = verify_webhook_request_sl API_KEY (headers req) in
      if \<not> is_valid then (JObj [(''error'', JStr ''Unauthorized'')], 401)
      else
        (case get_json req of
           Inl e \<Rightarrow> (JObj [(''error'', JStr ''Internal server error''),
                          (''timestamp'', JStr timestamp)], 500)
         | Inr webhook_data \<Rightarrow>
             if \<not> truthy webhook_data then
               (JObj [(''error'', JStr ''No JSON data provided'')], 400)
             else
               (let processed_tweets = process_tweet_data_sl clock webhook_data in
                if processed_tweets \<noteq> [] then
                  (JObj [(''status'', JStr ''success''),
                         (''message'', JStr (''Processed '' @ str_nat (length processed_tweets) @ '' tweets'')),
                         (''tweets_count'', JInt (int (length processed_tweets))),
                         (''timestamp'', JStr timestamp)], 200)
                else
                  (JObj [(''status'', JStr ''success''),
                         (''message'', JStr ''No tweets to process''),
                         (''timestamp'', JStr timestamp)], 200))))"

section \<open>Lemmas about the building blocks\<close>

lemma py_bind_Inl [simp]: "py_bind (Inl e) f = Inl e"
  by (simp add: py_bind_def)

lemma py_bind_Inr [simp]: "py_bind (Inr v) f = f v"
  by (simp add: py_bind_def)

lemma tweet_info_not_dict: "(\<forall>d. tweet \<noteq> JObj d) \<Longrightarrow> tweet_info rule_id rule_tag tweet = Inl AttributeError"
  by (cases tweet) (simp_all add: tweet_info_def)

lemma tweet_info_dict:
  "tweet_info rule_id rule_tag (JObj d) =
     (case dict_get d ''author'' (JObj []) of
        JObj a \<Rightarrow> Inr (JObj
          [(''id'', dict_get d ''id'' JNull),
           (''text'', dict_get d ''text'' (JStr '''')),
           (''author'', JObj [(''id'', dict_get a ''id'' JNull), (''username'', dict_get a ''username'' JNull),
                              (''name'', dict_get a ''name'' JNull)]),
           (''created_at'', dict_get d ''created_at'' JNull),
           (''metrics'', JObj [(''retweet_count'', dict_get d ''retweet_count'' (JInt 0)),
                               (''like_count'', dict_get d ''like_count'' (JInt 0)),
                               (''reply_count'', dict_get d ''reply_count'' (JInt 0))]),
           (''rule_info'', JObj [(''rule_id'', rule_id), (''rule_tag'', rule_tag)])])
      | _ \<Rightarrow> Inl AttributeError)"
  by (cases "dict_get d ''author'' (JObj [])") (simp_all add: tweet_info_def)

lemma tweet_info_sl_not_dict: "(\<forall>d. tweet \<noteq> JObj d) \<Longrightarrow> tweet_info_sl now rule_id rule_tag tweet = Inl AttributeError"
  by (cases tweet) (simp_all add: tweet_info_sl_def)

lemma tweet_info_sl_dict:
  "tweet_info_sl now rule_id rule_tag (JObj d) =
     (case dict_get d ''author'' (JObj []) of
        JObj a \<Rightarrow> Inr (JObj
          [(''id'', dict_get d ''id'' JNull),
           (''text'', dict_get d ''text'' (JStr '''')),
           (''author'', JObj [(''id'', dict_get a ''id'' JNull), (''username'', dict_get a ''username'' JNull),
                              (''name'', dict_get a ''name'' JNull)]),
           (''created_at'', dict_get d ''created_at'' JNull),
           (''metrics'', JObj [(''retweet_count'', dict_get d ''retweet_count'' (JInt 0)),
                               (''like_count'', dict_get d ''like_count'' (JInt 0)),
                               (''reply_count'', dict_get d ''reply_count'' (JInt 0))]),
           (''rule_info'', JObj [(''rule_id'', rule_id), (''rule_tag'', rule_tag)]),
           (''processed_at'', JStr now)])
      | _ \<Rightarrow> Inl AttributeError)"
  by (cases "dict_get d ''author'' (JObj [])") (simp_all add: tweet_info_sl_def)

lemma well_formed_step:
  "well_formed_tweet tweet \<Longrightarrow> tweet_step rule_id rule_tag tweet = tweet_info rule_id rule_tag tweet
     \<and> (\<exists>info. tweet_info rule_id rule_tag tweet = Inr info)"
  apply (cases tweet)
        apply simp_all
  subgoal for d
    apply (cases "dict_get d ''author'' (JObj [])")
          apply (simp_all add: author_ok_def)
    apply (cases "dict_get d ''text'' (JStr '''')")
          apply (simp_all add: text_ok_def tweet_step_def tweet_info_dict log_tweet_def)
    done
  done

lemma malformed_step:
  "\<not> well_formed_tweet tweet \<Longrightarrow> \<exists>e. tweet_step rule_id rule_tag tweet = Inl e"
  apply (cases tweet)
        apply (simp_all add: tweet_step_def tweet_info_not_dict)
  subgoal for d
    apply (cases "dict_get d ''author'' (JObj [])")
          apply (simp_all add: author_ok_def tweet_info_dict)
    apply (cases "dict_get d ''text'' (JStr '''')")
          apply (simp_all add: text_ok_def log_tweet_def)
    done
  done

lemma well_formed_step_sl:
  "well_formed_tweet tweet \<Longrightarrow> tweet_step_sl now rule_id rule_tag tweet = tweet_info_sl now rule_id rule_tag tweet
     \<and> (\<exists>info. tweet_info_sl now rule_id rule_tag tweet = Inr info)"
  apply (cases tweet)
        apply simp_all
  subgoal for d
    apply (cases "dict_get d ''author'' (JObj [])")
          apply (simp_all add: author_ok_def)
    apply (cases "dict_get d ''text'' (JStr '''')")
          apply (simp_all add: text_ok_def tweet_step_sl_def tweet_info_sl_dict log_tweet_def)
    done
  done

lemma malformed_step_sl:
  "\<not> well_formed_tweet tweet \<Longrightarrow> \<exists>e. tweet_step_sl now rule_id rule_tag tweet = Inl e"
  apply (cases tweet)
        apply (simp_all add: tweet_step_sl_def tweet_info_sl_not_dict)
  subgoal for d
    apply (cases "dict_get d ''author'' (JObj [])")
          apply (simp_all add: author_ok_def tweet_info_sl_dict)
    apply (cases "dict_get d ''text'' (JStr '''')")
          apply (simp_all add: text_ok_def log_tweet_def)
    done
  done

lemma process_loop_step:
  "process_loop rule_id rule_tag (tweet # rest) acc =
     (case tweet_step rule_id rule_tag tweet of
        Inl e \<Rightarrow> Inl e
      | Inr info \<Rightarrow> process_loop rule_id rule_tag rest (acc @ [info]))"
  by (simp add: tweet_step_def py_bind_def split: sum.splits)

lemma process_loop_sl_step:
  "process_loop_sl clock i rule_id rule_tag (tweet # rest) acc =
     (case tweet_step_sl (clock i) rule_id rule_tag tweet of
        Inl e \<Rightarrow> Inl e
      | Inr info \<Rightarrow> process_loop_sl clock (Suc i) rule_id rule_tag rest (acc @ [info]))"
  by (simp add: tweet_step_sl_def py_bind_def split: sum.splits)

lemma process_loop_all_ok:
  "\<forall>t\<in>set ts. well_formed_tweet t \<Longrightarrow>
   \<exists>rs. process_loop rule_id rule_tag ts acc = Inr (acc @ rs)
      \<and> map Inr rs = map (tweet_info rule_id rule_tag) ts"
proof (induction ts arbitrary: acc)
  case Nil
  then show ?case by simp
next
  case (Cons t ts)
  from Cons.prems have wf: "well_formed_tweet t" and rest: "\<forall>t\<in>set ts. well_formed_tweet t"
    by simp_all
  from well_formed_step [OF wf, of rule_id rule_tag]
  obtain info where step: "tweet_step rule_id rule_tag t = Inr info"
    and info: "tweet_info rule_id rule_tag t = Inr info"
    by auto
  from Cons.IH [OF rest, of "acc @ [info]"]
  obtain rs where rs: "process_loop rule_id rule_tag ts (acc @ [info]) = Inr ((acc @ [info]) @ rs)"
    and m: "map Inr rs = map (tweet_info rule_id rule_tag) ts"
    by blast
  have "process_loop rule_id rule_tag (t # ts) acc = Inr (acc @ (info # rs))"
    using step rs by (simp add: process_loop_step del: process_loop.simps)
  moreover have "map Inr (info # rs) = map (tweet_info rule_id rule_tag) (t # ts)"
    using info m by simp
  ultimately show ?case by blast
qed

lemma process_loop_sl_all_ok:
  "\<forall>t\<in>set ts. well_formed_tweet t \<Longrightarrow>
   \<exists>rs. process_loop_sl clock i rule_id rule_tag ts acc = Inr (acc @ rs)
      \<and> map Inr rs = map (\<lambda>k. tweet_info_sl (clock (i + k)) rule_id rule_tag (ts ! k)) [0..<length ts]"
proof (induction ts arbitrary: acc i)
  case Nil
  then show ?case by simp
next
  case (Cons t ts)
  from Cons.prems have wf: "well_formed_tweet t" and rest: "\<forall>t\<in>set ts. well_formed_tweet t"
    by simp_all
  from well_formed_step_sl [OF wf, of "clock i" rule_id rule_tag]
  obtain info where step: "tweet_step_sl (clock i) rule_id rule_tag t = Inr info"
    and info: "tweet_info_sl (clock i) rule_id rule_tag t = Inr info"
    by auto
  from Cons.IH [OF rest, of "Suc i" "acc @ [info]"]
  obtain rs where rs: "process_loop_sl clock (Suc i) rule_id rule_tag ts (acc @ [info]) = Inr ((acc @ [info]) @ rs)"
    and m: "map Inr rs = map (\<lambda>k. tweet_info_sl (clock (Suc i + k)) rule_id rule_tag (ts ! k)) [0..<length ts]"
    by blast
  have "process_loop_sl clock i rule_id rule_tag (t # ts) acc = Inr (acc @ (info # rs))"
    using step rs by (simp add: process_loop_sl_step del: process_loop_sl.simps)
  moreover have "map Inr (info # rs) =
      map (\<lambda>k. tweet_info_sl (clock (i + k)) rule_id rule_tag ((t # ts) ! k)) [0..<length (t # ts)]"
  proof -
    have "[0..<length (t # ts)] = 0 # map Suc [0..<length ts]"
      by (simp add: upt_conv_Cons map_Suc_upt del: upt_Suc)
    then show ?thesis using info m by (simp add: comp_def del: upt_Suc)
  qed
  ultimately show ?case by blast
qed

lemma process_loop_raises:
  "\<exists>t\<in>set ts. \<not> well_formed_tweet t \<Longrightarrow> \<exists>e. process_loop rule_id rule_tag ts acc = Inl e"
proof (induction ts arbitrary: acc)
  case Nil
  then show ?case by simp
next
  case (Cons t ts)
  show ?case
  proof (cases "tweet_step rule_id rule_tag t")
    case (Inl e)
    then show ?thesis by (simp add: process_loop_step del: process_loop.simps)
  next
    case (Inr info)
    with malformed_step [of t rule_id rule_tag] have "well_formed_tweet t" by auto
    with Cons.prems have "\<exists>t\<in>set ts. \<not> well_formed_tweet t" by auto
    from Cons.IH [OF this, of "acc @ [info]"] Inr show ?thesis
      by (simp add: process_loop_step del: process_loop.simps)
  qed
qed

lemma process_loop_sl_raises:
  "\<exists>t\<in>set ts. \<not> well_formed_tweet t \<Longrightarrow> \<exists>e. process_loop_sl clock i rule_id rule_tag ts acc = Inl e"
proof (induction ts arbitrary: acc i)
  case Nil
  then show ?case by simp
next
  case (Cons t ts)
  show ?case
  proof (cases "tweet_step_sl (clock i) rule_id rule_tag t")
    case (Inl e)
    then show ?thesis by (simp add: process_loop_sl_step del: process_loop_sl.simps)
  next
    case (Inr info)
    with malformed_step_sl [of t "clock i" rule_id rule_tag] have "well_formed_tweet t" by auto
    with Cons.prems have "\<exists>t\<in>set ts. \<not> well_formed_tweet t" by auto
    from Cons.IH [OF this, of "Suc i" "acc @ [info]"] Inr show ?thesis
      by (simp add: process_loop_sl_step del: process_loop_sl.simps)
  qed
qed


lemma tweet_info_rule_info:
  "tweet_info rule_id rule_tag tweet = Inr info \<Longrightarrow>
   py_item info ''rule_info'' = Inr (JObj [(''rule_id'', rule_id), (''rule_tag'', rule_tag)])"
  by (cases tweet) (auto simp: tweet_info_dict tweet_info_not_dict split: json.splits)

lemma tweet_info_sl_rule_info:
  "tweet_info_sl now rule_id rule_tag tweet = Inr info \<Longrightarrow>
   py_item info ''rule_info'' = Inr (JObj [(''rule_id'', rule_id), (''rule_tag'', rule_tag)])"
  by (cases tweet) (auto simp: tweet_info_sl_dict tweet_info_sl_not_dict split: json.splits)

lemma process_try_dict:
  "dict_get p ''tweets'' (JList []) = JList ts \<Longrightarrow>
   process_tweet_data_try (JObj p) =
     process_loop (dict_get p ''rule_id'' JNull) (dict_get p ''rule_tag'' JNull) ts []"
  by (simp add: process_tweet_data_try_def)

lemma process_sl_try_dict:
  "dict_get p ''tweets'' (JList []) = JList ts \<Longrightarrow>
   process_tweet_data_sl_try clock (JObj p) =
     process_loop_sl clock 0 (dict_get p ''rule_id'' JNull) (dict_get p ''rule_tag'' JNull) ts []"
  by (simp add: process_tweet_data_sl_try_def)

lemma process_valid:
  assumes "\<forall>t\<in>set ts. well_formed_tweet t"
    and "dict_get p ''tweets'' (JList []) = JList ts"
  shows "map Inr (process_tweet_data (JObj p)) =
           map (tweet_info (dict_get p ''rule_id'' JNull) (dict_get p ''rule_tag'' JNull)) ts"
proof -
  from process_loop_all_ok [OF assms(1), of "dict_get p ''rule_id'' JNull" "dict_get p ''rule_tag'' JNull" "[]"]
  obtain rs where "process_loop (dict_get p ''rule_id'' JNull) (dict_get p ''rule_tag'' JNull) ts [] = Inr rs"
    and "map Inr rs = map (tweet_info (dict_get p ''rule_id'' JNull) (dict_get p ''rule_tag'' JNull)) ts"
    by auto
  then show ?thesis
    by (simp add: process_tweet_data_def process_try_dict [OF assms(2)])
qed

lemma process_sl_valid:
  assumes "\<forall>t\<in>set ts. well_formed_tweet t"
    and "dict_get p ''tweets'' (JList []) = JList ts"
  shows "map Inr (process_tweet_data_sl clock (JObj p)) =
           map (\<lambda>k. tweet_info_sl (clock k) (dict_get p ''rule_id'' JNull) (dict_get p ''rule_tag'' JNull) (ts ! k))
             [0..<length ts]"
proof -
  from process_loop_sl_all_ok [OF assms(1), of clock 0 "dict_get p ''rule_id'' JNull" "dict_get p ''rule_tag'' JNull" "[]"]
  obtain rs where "process_loop_sl clock 0 (dict_get p ''rule_id'' JNull) (dict_get p ''rule_tag'' JNull) ts [] = Inr rs"
    and "map Inr rs = map (\<lambda>k. tweet_info_sl (clock k) (dict_get p ''rule_id'' JNull) (dict_get p ''rule_tag'' JNull) (ts ! k))
             [0..<length ts]"
    by auto
  then show ?thesis
    by (simp add: process_tweet_data_sl_def process_sl_try_dict [OF assms(2)])
qed

lemma map_Inr_rule_info:
  assumes "map Inr rs = map f xs"
    and "\<And>x r. f x = Inr r \<Longrightarrow> P r"
  shows "\<forall>r\<in>set rs. P r"
proof
  fix r assume "r \<in> set rs"
  moreover have "Inr ` set rs = f ` set xs"
    using arg_cong [OF assms(1), of set] by simp
  ultimately have "Inr r \<in> f ` set xs" by blast
  then obtain x where "f x = Inr r" by auto
  with assms(2) show "P r" by blast
qed

section \<open>Properties of normalisation\<close>

text \<open>
  Claim C1. For a payload that is a dictionary whose \<open>tweets\<close> is a list \<open>ts\<close> of
  well-formed entries (a missing \<open>tweets\<close> key counts as the empty list),
  \<open>process_tweet_data\<close> returns exactly \<open>length ts\<close> records; the record at each position
  is the one built from the entry at that position; and the \<open>rule_info\<close> of every record
  holds the payload's \<open>rule_id\<close> and \<open>rule_tag\<close>. The same holds for the serverless
  variant, whose \<open>k\<close>-th record carries the \<open>k\<close>-th reading of the clock.
\<close>

theorem normalize_valid_payload:
  assumes "\<forall>t\<in>set ts. well_formed_tweet t"
    and "dict_get p ''tweets'' (JList []) = JList ts"
    and "rule_id = dict_get p ''rule_id'' JNull"
    and "rule_tag = dict_get p ''rule_tag'' JNull"
  shows "length (process_tweet_data (JObj p)) = length ts
       \<and> map Inr (process_tweet_data (JObj p)) = map (tweet_info rule_id rule_tag) ts
       \<and> (\<forall>r\<in>set (process_tweet_data (JObj p)).
             py_item r ''rule_info'' = Inr (JObj [(''rule_id'', rule_id), (''rule_tag'', rule_tag)]))
       \<and> length (process_tweet_data_sl clock (JObj p)) = length ts
       \<and> map Inr (process_tweet_data_sl clock (JObj p)) =
             map (\<lambda>k. tweet_info_sl (clock k) rule_id rule_tag (ts ! k)) [0..<length ts]
       \<and> (\<forall>r\<in>set (process_tweet_data_sl clock (JObj p)).
             py_item r ''rule_info'' = Inr (JObj [(''rule_id'', rule_id), (''rule_tag'', rule_tag)]))"
proof -
  have m: "map Inr (process_tweet_data (JObj p)) = map (tweet_info rule_id rule_tag) ts"
    using process_valid [OF assms(1,2)] assms(3,4) by simp
  have ms: "map Inr (process_tweet_data_sl clock (JObj p)) =
             map (\<lambda>k. tweet_info_sl (clock k) rule_id rule_tag (ts ! k)) [0..<length ts]"
    using process_sl_valid [OF assms(1,2)] assms(3,4) by simp
  have l: "length (process_tweet_data (JObj p)) = length ts"
    using arg_cong [OF m, of length] by simp
  have ls: "length (process_tweet_data_sl clock (JObj p)) = length ts"
    using arg_cong [OF ms, of length] by simp
  have r: "\<forall>r\<in>set (process_tweet_data (JObj p)).
             py_item r ''rule_info'' = Inr (JObj [(''rule_id'', rule_id), (''rule_tag'', rule_tag)])"
    by (rule map_Inr_rule_info [OF m]) (rule tweet_info_rule_info)
  have rs: "\<forall>r\<in>set (process_tweet_data_sl clock (JObj p)).
             py_item r ''rule_info'' = Inr (JObj [(''rule_id'', rule_id), (''rule_tag'', rule_tag)])"
    by (rule map_Inr_rule_info [OF ms]) (rule tweet_info_sl_rule_info)
  from m ms l ls r rs show ?thesis by blast
qed

theorem normalize_valid_payload_witness:
  "well_formed_tweet (JObj [(''id'', JStr ''1''), (''text'', JStr ''hi''), (''author'', JObj [(''username'', JStr ''bob'')])])
   \<and> well_formed_tweet (JObj [(''id'', JStr ''2'')])
   \<and> length (process_tweet_data (JObj [(''rule_id'', JStr ''r1''), (''rule_tag'', JStr ''demo''),
        (''tweets'', JList [JObj [(''id'', JStr ''1''), (''text'', JStr ''hi''), (''author'', JObj [(''username'', JStr ''bob'')])],
                            JObj [(''id'', JStr ''2'')]])])) = 2
   \<and> map Inr (process_tweet_data (JObj [(''rule_id'', JStr ''r1''), (''rule_tag'', JStr ''demo''),
        (''tweets'', JList [JObj [(''id'', JStr ''1''), (''text'', JStr ''hi''), (''author'', JObj [(''username'', JStr ''bob'')])],
                            JObj [(''id'', JStr ''2'')]])])) =
       map (tweet_info (JStr ''r1'') (JStr ''demo''))
         [JObj [(''id'', JStr ''1''), (''text'', JStr ''hi''), (''author'', JObj [(''username'', JStr ''bob'')])],
          JObj [(''id'', JStr ''2'')]]
   \<and> length (process_tweet_data_sl (still_clock ''2024-01-01T00:00:00'') (JObj [(''rule_id'', JStr ''r1''), (''rule_tag'', JStr ''demo''),
        (''tweets'', JList [JObj [(''id'', JStr ''1''), (''text'', JStr ''hi''), (''author'', JObj [(''username'', JStr ''bob'')])],
                            JObj [(''id'', JStr ''2'')]])])) = 2"
proof -
  have wf: "\<forall>t\<in>set [JObj [(''id'', JStr ''1''), (''text'', JStr ''hi''), (''author'', JObj [(''username'', JStr ''bob'')])],
              JObj [(''id'', JStr ''2'')]]. well_formed_tweet t"
    by (simp add: author_ok_def text_ok_def dict_get_def)
  have tw: "dict_get [(''rule_id'', JStr ''r1''), (''rule_tag'', JStr ''demo''),
        (''tweets'', JList [JObj [(''id'', JStr ''1''), (''text'', JStr ''hi''), (''author'', JObj [(''username'', JStr ''bob'')])],
                            JObj [(''id'', JStr ''2'')]])] ''tweets'' (JList [])
      = JList [JObj [(''id'', JStr ''1''), (''text'', JStr ''hi''), (''author'', JObj [(''username'', JStr ''bob'')])],
              JObj [(''id'', JStr ''2'')]]"
    by (simp add: dict_get_def)
  have rid: "JStr ''r1'' = dict_get [(''rule_id'', JStr ''r1''), (''rule_tag'', JStr ''demo''),
        (''tweets'', JList [JObj [(''id'', JStr ''1''), (''text'', JStr ''hi''), (''author'', JObj [(''username'', JStr ''bob'')])],
                            JObj [(''id'', JStr ''2'')]])] ''rule_id'' JNull"
    by (simp add: dict_get_def)
  have rtag: "JStr ''demo'' = dict_get [(''rule_id'', JStr ''r1''), (''rule_tag'', JStr ''demo''),
        (''tweets'', JList [JObj [(''id'', JStr ''1''), (''text'', JStr ''hi''), (''author'', JObj [(''username'', JStr ''bob'')])],
                            JObj [(''id'', JStr ''2'')]])] ''rule_tag'' JNull"
    by (simp add: dict_get_def)
  from normalize_valid_payload [OF wf tw rid rtag, of "still_clock ''2024-01-01T00:00:00''"] wf
  show ?thesis by simp
qed

text \<open>A pass of the loop body raises exactly on the entries that are not well formed.\<close>

lemma step_raises_iff:
  "(\<exists>e. tweet_step rule_id rule_tag tweet = Inl e) \<longleftrightarrow> \<not> well_formed_tweet tweet"
  using well_formed_step [of tweet rule_id rule_tag] malformed_step [of tweet rule_id rule_tag]
  by auto

lemma step_sl_raises_iff:
  "(\<exists>e. tweet_step_sl now rule_id rule_tag tweet = Inl e) \<longleftrightarrow> \<not> well_formed_tweet tweet"
  using well_formed_step_sl [of tweet now rule_id rule_tag] malformed_step_sl [of tweet now rule_id rule_tag]
  by auto

lemma process_malformed:
  assumes "dict_get p ''tweets'' (JList []) = JList ts"
    and "\<exists>t\<in>set ts. \<not> well_formed_tweet t"
  shows "\<exists>e. process_tweet_data_try (JObj p) = Inl e"
  using process_loop_raises [OF assms(2)] by (simp add: process_try_dict [OF assms(1)])

lemma process_sl_malformed:
  assumes "dict_get p ''tweets'' (JList []) = JList ts"
    and "\<exists>t\<in>set ts. \<not> well_formed_tweet t"
  shows "\<exists>e. process_tweet_data_sl_try clock (JObj p) = Inl e"
  using process_loop_sl_raises [OF assms(2)] by (simp add: process_sl_try_dict [OF assms(1)])

text \<open>
  Claim C2, as amended. When the \<open>tweets\<close> list of a payload holds an entry that is not
  well formed (one on which the loop body raises), \<open>process_tweet_data\<close> returns the empty
  list in both variants: the exception handler discards the records of the well-formed
  entries too, so no entry of that batch yields a record.
\<close>

theorem normalize_malformed_entry_voids_batch:
  assumes "dict_get p ''tweets'' (JList []) = JList ts"
    and "bad \<in> set ts" and "\<not> well_formed_tweet bad"
  shows "process_tweet_data (JObj p) = [] \<and> process_tweet_data_sl clock (JObj p) = []"
proof -
  from assms(2,3) have ex: "\<exists>t\<in>set ts. \<not> well_formed_tweet t" by blast
  from process_malformed [OF assms(1) ex] have "process_tweet_data (JObj p) = []"
    by (auto simp: process_tweet_data_def)
  moreover from process_sl_malformed [OF assms(1) ex, of clock]
  have "process_tweet_data_sl clock (JObj p) = []"
    by (auto simp: process_tweet_data_sl_def)
  ultimately show ?thesis by simp
qed

theorem normalize_malformed_entry_voids_batch_witness:
  "well_formed_tweet (JObj [(''id'', JStr ''1''), (''text'', JStr ''hi'')])
   \<and> \<not> well_formed_tweet (JInt 5)
   \<and> process_tweet_data (JObj [(''rule_id'', JStr ''r1''),
        (''tweets'', JList [JObj [(''id'', JStr ''1''), (''text'', JStr ''hi'')], JInt 5])]) = []
   \<and> process_tweet_data_sl (still_clock ''2024-01-01T00:00:00'') (JObj [(''rule_id'', JStr ''r1''),
        (''tweets'', JList [JObj [(''id'', JStr ''1''), (''text'', JStr ''hi'')], JInt 5])]) = []"
proof -
  have tw: "dict_get [(''rule_id'', JStr ''r1''),
        (''tweets'', JList [JObj [(''id'', JStr ''1''), (''text'', JStr ''hi'')], JInt 5])] ''tweets'' (JList [])
     = JList [JObj [(''id'', JStr ''1''), (''text'', JStr ''hi'')], JInt 5]"
    by (simp add: dict_get_def)
  have mem: "JInt 5 \<in> set [JObj [(''id'', JStr ''1''), (''text'', JStr ''hi'')], JInt 5]" by simp
  have bad: "\<not> well_formed_tweet (JInt 5)" by simp
  have ok: "well_formed_tweet (JObj [(''id'', JStr ''1''), (''text'', JStr ''hi'')])"
    by (simp add: author_ok_def text_ok_def dict_get_def)
  from normalize_malformed_entry_voids_batch [OF tw mem bad, of "still_clock ''2024-01-01T00:00:00''"] ok bad
  show ?thesis by simp
qed

text \<open>
  The claim as stated fails: in the batch below the first entry is well formed (alone it
  yields the record shown), the second is the number 5, and the result is empty.
\<close>

theorem normalize_keeps_others_counterexample:
  "tweet_step (JStr ''r1'') JNull (JObj [(''id'', JStr ''1''), (''text'', JStr ''hi'')]) =
     Inr (JObj [(''id'', JStr ''1''), (''text'', JStr ''hi''),
                (''author'', JObj [(''id'', JNull), (''username'', JNull), (''name'', JNull)]),
                (''created_at'', JNull),
                (''metrics'', JObj [(''retweet_count'', JInt 0), (''like_count'', JInt 0), (''reply_count'', JInt 0)]),
                (''rule_info'', JObj [(''rule_id'', JStr ''r1''), (''rule_tag'', JNull)])])
   \<and> tweet_step (JStr ''r1'') JNull (JInt 5) = Inl AttributeError
   \<and> process_tweet_data (JObj [(''rule_id'', JStr ''r1''),
        (''tweets'', JList [JObj [(''id'', JStr ''1''), (''text'', JStr ''hi'')], JInt 5])]) = []
   \<and> process_tweet_data_sl (still_clock ''2024-01-01T00:00:00'') (JObj [(''rule_id'', JStr ''r1''),
        (''tweets'', JList [JObj [(''id'', JStr ''1''), (''text'', JStr ''hi'')], JInt 5])]) = []"
  by (simp add: tweet_step_def tweet_info_def tweet_info_sl_def log_tweet_def dict_get_def
      process_tweet_data_def process_tweet_data_try_def
      process_tweet_data_sl_def process_tweet_data_sl_try_def)

text \<open>
  Claim C3. \<open>process_tweet_data\<close> returns a list on every input, and there are only two
  cases: the body of its \<open>try\<close> block returned, and the result is the list it built; or
  the body raised, and the result is the empty list. In particular, when any entry of the
  \<open>tweets\<close> list raises in the loop body, the block raises and the whole call returns the
  empty list, with none of the records built before. Both variants.
\<close>

theorem normalize_fail_soft:
  "(process_tweet_data_try w = Inr (process_tweet_data w)
      \<or> (\<exists>e. process_tweet_data_try w = Inl e) \<and> process_tweet_data w = [])
   \<and> (process_tweet_data_sl_try clock w = Inr (process_tweet_data_sl clock w)
      \<or> (\<exists>e. process_tweet_data_sl_try clock w = Inl e) \<and> process_tweet_data_sl clock w = [])
   \<and> (w = JObj p \<and> dict_get p ''tweets'' (JList []) = JList ts
        \<and> (\<exists>t\<in>set ts. \<exists>e. tweet_step rule_id rule_tag t = Inl e)
      \<longrightarrow> (\<exists>e. process_tweet_data_try w = Inl e) \<and> process_tweet_data w = [])
   \<and> (w = JObj p \<and> dict_get p ''tweets'' (JList []) = JList ts
        \<and> (\<exists>t\<in>set ts. \<exists>e. tweet_step_sl now rule_id rule_tag t = Inl e)
      \<longrightarrow> (\<exists>e. process_tweet_data_sl_try clock w = Inl e) \<and> process_tweet_data_sl clock w = [])"
proof -
  have a: "process_tweet_data_try w = Inr (process_tweet_data w)
      \<or> (\<exists>e. process_tweet_data_try w = Inl e) \<and> process_tweet_data w = []"
    by (cases "process_tweet_data_try w") (simp_all add: process_tweet_data_def)
  have b: "process_tweet_data_sl_try clock w = Inr (process_tweet_data_sl clock w)
      \<or> (\<exists>e. process_tweet_data_sl_try clock w = Inl e) \<and> process_tweet_data_sl clock w = []"
    by (cases "process_tweet_data_sl_try clock w") (simp_all add: process_tweet_data_sl_def)
  have c: "(\<exists>e. process_tweet_data_try w = Inl e) \<and> process_tweet_data w = []"
    if "w = JObj p" "dict_get p ''tweets'' (JList []) = JList ts"
       "\<exists>t\<in>set ts. \<exists>e. tweet_step rule_id rule_tag t = Inl e"
  proof -
    from that(3) have "\<exists>t\<in>set ts. \<not> well_formed_tweet t"
      by (simp add: step_raises_iff)
    from process_malformed [OF that(2) this] that(1) show ?thesis
      by (auto simp: process_tweet_data_def)
  qed
  have d: "(\<exists>e. process_tweet_data_sl_try clock w = Inl e) \<and> process_tweet_data_sl clock w = []"
    if "w = JObj p" "dict_get p ''tweets'' (JList []) = JList ts"
       "\<exists>t\<in>set ts. \<exists>e. tweet_step_sl now rule_id rule_tag t = Inl e"
  proof -
    from that(3) have "\<exists>t\<in>set ts. \<not> well_formed_tweet t"
      by (simp add: step_sl_raises_iff)
    from process_sl_malformed [OF that(2) this, of clock] that(1) show ?thesis
      by (auto simp: process_tweet_data_sl_def)
  qed
  from a b c d show ?thesis by blast
qed


theorem normalize_fail_soft_witness:
  "(\<exists>e. tweet_step JNull JNull (JStr ''x'') = Inl e)
   \<and> (\<exists>e. process_tweet_data_try (JObj [(''tweets'', JList [JObj [(''id'', JStr ''1'')], JStr ''x''])]) = Inl e)
   \<and> process_tweet_data (JObj [(''tweets'', JList [JObj [(''id'', JStr ''1'')], JStr ''x''])]) = []
   \<and> (\<exists>e. process_tweet_data_sl_try (still_clock ''2024-01-01T00:00:00'')
            (JObj [(''tweets'', JList [JObj [(''id'', JStr ''1'')], JStr ''x''])]) = Inl e)
   \<and> process_tweet_data_sl (still_clock ''2024-01-01T00:00:00'')
        (JObj [(''tweets'', JList [JObj [(''id'', JStr ''1'')], JStr ''x''])]) = []"
proof -
  have tw: "dict_get [(''tweets'', JList [JObj [(''id'', JStr ''1'')], JStr ''x''])] ''tweets'' (JList [])
      = JList [JObj [(''id'', JStr ''1'')], JStr ''x'']"
    by (simp add: dict_get_def)
  have r: "tweet_step JNull JNull (JStr ''x'') = Inl AttributeError"
    by (simp add: tweet_step_def tweet_info_def)
  have rs: "tweet_step_sl ''now'' JNull JNull (JStr ''x'') = Inl AttributeError"
    by (simp add: tweet_step_sl_def tweet_info_sl_def)
  from normalize_fail_soft [of "JObj [(''tweets'', JList [JObj [(''id'', JStr ''1'')], JStr ''x''])]"
      "still_clock ''2024-01-01T00:00:00''" "[(''tweets'', JList [JObj [(''id'', JStr ''1'')], JStr ''x''])]"
      "[JObj [(''id'', JStr ''1'')], JStr ''x'']" JNull JNull "''now''"] tw r rs
  show ?thesis by simp
qed






section \<open>Properties of authentication\<close>

text \<open>
  Claim C8, as amended. In both variants the check succeeds exactly when a non-empty key
  is configured and the \<open>X-API-Key\<close> header is present with exactly that value. When the
  header is absent the answer is the missing-header message; when it is present with a
  non-empty value other than the key, the invalid-key message (for the serverless variant,
  both with a key configured); and the serverless variant with no key, or an empty one,
  answers every request with the not-configured message, whatever its headers.
\<close>

theorem verify_outcomes:
  "(fst (verify_webhook_request API_KEY hdrs) \<longleftrightarrow>
      (\<exists>k. k \<noteq> [] \<and> API_KEY = Some k \<and> hdrs ''X-API-Key'' = Some k))
   \<and> (fst (verify_webhook_request_sl API_KEY hdrs) \<longleftrightarrow>
      (\<exists>k. k \<noteq> [] \<and> API_KEY = Some k \<and> hdrs ''X-API-Key'' = Some k))
   \<and> (hdrs ''X-API-Key'' = None \<longrightarrow>
        verify_webhook_request API_KEY hdrs = (False, ''Missing X-API-Key header''))
   \<and> (hdrs ''X-API-Key'' = None \<and> str_truthy API_KEY \<longrightarrow>
        verify_webhook_request_sl API_KEY hdrs = (False, ''Missing X-API-Key header''))
   \<and> (hdrs ''X-API-Key'' = Some r \<and> r \<noteq> [] \<and> API_KEY \<noteq> Some r \<longrightarrow>
        verify_webhook_request API_KEY hdrs = (False, ''Invalid API key''))
   \<and> (hdrs ''X-API-Key'' = Some r \<and> r \<noteq> [] \<and> API_KEY \<noteq> Some r \<and> str_truthy API_KEY \<longrightarrow>
        verify_webhook_request_sl API_KEY hdrs = (False, ''Invalid API key''))
   \<and> (\<not> str_truthy API_KEY \<longrightarrow>
        verify_webhook_request_sl API_KEY hdrs = (False, ''API key not configured''))"
proof -
  have a: "fst (verify_webhook_request API_KEY hdrs) \<longleftrightarrow>
      (\<exists>k. k \<noteq> [] \<and> API_KEY = Some k \<and> hdrs ''X-API-Key'' = Some k)"
    by (cases "hdrs ''X-API-Key''") (auto simp: verify_webhook_request_def str_truthy_def)
  have b: "fst (verify_webhook_request_sl API_KEY hdrs) \<longleftrightarrow>
      (\<exists>k. k \<noteq> [] \<and> API_KEY = Some k \<and> hdrs ''X-API-Key'' = Some k)"
    by (cases "hdrs ''X-API-Key''"; cases API_KEY)
       (auto simp: verify_webhook_request_sl_def str_truthy_def)
  have c: "hdrs ''X-API-Key'' = None \<longrightarrow>
        verify_webhook_request API_KEY hdrs = (False, ''Missing X-API-Key header'')"
    by (simp add: verify_webhook_request_def str_truthy_def)
  have d: "hdrs ''X-API-Key'' = None \<and> str_truthy API_KEY \<longrightarrow>
        verify_webhook_request_sl API_KEY hdrs = (False, ''Missing X-API-Key header'')"
    by (simp add: verify_webhook_request_sl_def str_truthy_def)
  have e: "hdrs ''X-API-Key'' = Some r \<and> r \<noteq> [] \<and> API_KEY \<noteq> Some r \<longrightarrow>
        verify_webhook_request API_KEY hdrs = (False, ''Invalid API key'')"
    by (auto simp: verify_webhook_request_def str_truthy_def)
  have f: "hdrs ''X-API-Key'' = Some r \<and> r \<noteq> [] \<and> API_KEY \<noteq> Some r \<and> str_truthy API_KEY \<longrightarrow>
        verify_webhook_request_sl API_KEY hdrs = (False, ''Invalid API key'')"
    by (auto simp: verify_webhook_request_sl_def str_truthy_def)
  have g: "\<not> str_truthy API_KEY \<longrightarrow>
        verify_webhook_request_sl API_KEY hdrs = (False, ''API key not configured'')"
    by (simp add: verify_webhook_request_sl_def)
  from a b c d e f g show ?thesis by blast
qed

theorem verify_outcomes_witness:
  "fst (verify_webhook_request (Some ''secret123'') [''X-API-Key'' \<mapsto> ''secret123''])
   \<and> fst (verify_webhook_request_sl (Some ''secret123'') [''X-API-Key'' \<mapsto> ''secret123''])
   \<and> verify_webhook_request (Some ''secret123'') Map.empty = (False, ''Missing X-API-Key header'')
   \<and> verify_webhook_request_sl (Some ''secret123'') Map.empty = (False, ''Missing X-API-Key header'')
   \<and> verify_webhook_request (Some ''secret123'') [''X-API-Key'' \<mapsto> ''guess''] = (False, ''Invalid API key'')
   \<and> verify_webhook_request_sl (Some ''secret123'') [''X-API-Key'' \<mapsto> ''guess''] = (False, ''Invalid API key'')
   \<and> verify_webhook_request_sl None [''X-API-Key'' \<mapsto> ''guess''] = (False, ''API key not configured'')"
  using verify_outcomes [of "Some ''secret123''" "[''X-API-Key'' \<mapsto> ''secret123'']" "''secret123''"]
    verify_outcomes [of "Some ''secret123''" Map.empty "''guess''"]
    verify_outcomes [of "Some ''secret123''" "[''X-API-Key'' \<mapsto> ''guess'']" "''guess''"]
    verify_outcomes [of None "[''X-API-Key'' \<mapsto> ''guess'']" "''guess''"]
  by (simp add: str_truthy_def)

text \<open>
  The claim as stated fails where it gives the invalid-key reason to every header that is
  present and unequal to the key: a header that is present with the empty value differs
  from the key \<open>secret123\<close> and is answered with the missing-header message.
\<close>

theorem verify_empty_header_counterexample:
  "[''X-API-Key'' \<mapsto> ''''] ''X-API-Key'' = Some ''''
   \<and> Some '''' \<noteq> Some ''secret123''
   \<and> verify_webhook_request (Some ''secret123'') [''X-API-Key'' \<mapsto> ''''] = (False, ''Missing X-API-Key header'')
   \<and> verify_webhook_request_sl (Some ''secret123'') [''X-API-Key'' \<mapsto> ''''] = (False, ''Missing X-API-Key header'')
   \<and> snd (verify_webhook_request (Some ''secret123'') [''X-API-Key'' \<mapsto> '''']) \<noteq> ''Invalid API key''
   \<and> snd (verify_webhook_request_sl (Some ''secret123'') [''X-API-Key'' \<mapsto> '''']) \<noteq> ''Invalid API key''"
  by (simp add: verify_webhook_request_def verify_webhook_request_sl_def str_truthy_def)

text \<open>
  Claim C10, as amended. A request whose \<open>X-API-Key\<close> header is present and empty is
  rejected: by the standalone variant with the missing-header message for every key, an
  empty one included; by the serverless variant with the missing-header message when a
  non-empty key is configured, and with the not-configured message otherwise.
\<close>

theorem verify_empty_header:
  assumes "hdrs ''X-API-Key'' = Some ''''"
  shows "verify_webhook_request API_KEY hdrs = (False, ''Missing X-API-Key header'')
       \<and> verify_webhook_request_sl API_KEY hdrs =
           (False, if str_truthy API_KEY then ''Missing X-API-Key header'' else ''API key not configured'')"
  using assms by (simp add: verify_webhook_request_def verify_webhook_request_sl_def str_truthy_def)

theorem verify_empty_header_witness:
  "[''X-API-Key'' \<mapsto> ''''] ''X-API-Key'' = Some ''''
   \<and> verify_webhook_request (Some '''') [''X-API-Key'' \<mapsto> ''''] = (False, ''Missing X-API-Key header'')
   \<and> verify_webhook_request (Some ''secret123'') [''X-API-Key'' \<mapsto> ''''] = (False, ''Missing X-API-Key header'')
   \<and> verify_webhook_request_sl (Some ''secret123'') [''X-API-Key'' \<mapsto> ''''] = (False, ''Missing X-API-Key header'')
   \<and> verify_webhook_request_sl (Some '''') [''X-API-Key'' \<mapsto> ''''] = (False, ''API key not configured'')"
proof -
  have h: "[''X-API-Key'' \<mapsto> ''''] ''X-API-Key'' = Some ''''" by simp
  from verify_empty_header [of "[''X-API-Key'' \<mapsto> '''']" "Some ''''", OF h]
    verify_empty_header [of "[''X-API-Key'' \<mapsto> '''']" "Some ''secret123''", OF h] h
  show ?thesis by (simp add: str_truthy_def)
qed

text \<open>
  The claim as stated fails for the serverless variant with no key or an empty key: the
  key is tested before the header, and the message is the not-configured one.
\<close>

theorem verify_empty_header_unconfigured_counterexample:
  "[''X-API-Key'' \<mapsto> ''''] ''X-API-Key'' = Some ''''
   \<and> verify_webhook_request_sl None [''X-API-Key'' \<mapsto> ''''] = (False, ''API key not configured'')
   \<and> verify_webhook_request_sl (Some '''') [''X-API-Key'' \<mapsto> ''''] = (False, ''API key not configured'')
   \<and> snd (verify_webhook_request_sl (Some '''') [''X-API-Key'' \<mapsto> '''']) \<noteq> ''Missing X-API-Key header''"
  by (simp add: verify_webhook_request_sl_def str_truthy_def)

section \<open>Properties of persistence\<close>

text \<open>
  One call on a day's file that is missing (\<open>P\<close> empty) or holds the list \<open>P\<close>. When
  nothing raises, the file then holds \<open>P\<close> followed by the batch.
\<close>

lemma save_to_list:
  assumes "fs (tweets_filename today) = None \<and> P = [] \<or> fs (tweets_filename today) = Some (Parsed (JList P))"
    and "\<not> open_read_raises io" and "\<not> open_write_raises io"
    and "json_dump_raises io (JList (P @ tweets)) = None"
  shows "fst (save_tweets_to_file io today fs tweets) =
           fs(tweets_filename today \<mapsto> Parsed (JList (P @ tweets)))"
  using assms
  by (auto simp: save_tweets_to_file_def save_tweets_try_def json_load_def Let_def)

text \<open>
  When \<open>json.dump\<close> raises, the file is already truncated: what it held is lost, and the
  next call cannot read it.
\<close>

lemma save_dump_raises:
  assumes "fs (tweets_filename today) = None \<and> P = [] \<or> fs (tweets_filename today) = Some (Parsed (JList P))"
    and "\<not> open_read_raises io" and "\<not> open_write_raises io"
    and "json_dump_raises io (JList (P @ tweets)) = Some e"
  shows "save_tweets_to_file io today fs tweets = (fs(tweets_filename today \<mapsto> Unparsable), JNull)"
  using assms
  by (auto simp: save_tweets_to_file_def save_tweets_try_def json_load_def Let_def)

text \<open>
  For example, a record whose \<open>text\<close> is a lone surrogate destroys the day's file.
\<close>

lemma save_lone_surrogate_example:
  "save_tweets_to_file utf8_io ''20240101''
     [''tweets_20240101.json'' \<mapsto> Parsed (JList [JObj [(''id'', JStr ''0'')]])]
     [JObj [(''id'', JStr ''1''), (''text'', JStr [CHR 0xED, CHR 0xA0, CHR 0xBD])]]
   = ([''tweets_20240101.json'' \<mapsto> Unparsable], JNull)"
  by (simp add: save_tweets_to_file_def save_tweets_try_def json_load_def tweets_filename_def utf8_io_def)

text \<open>
  Claim C4. Let the day's file be missing (then \<open>P\<close> is empty) or hold the list \<open>P\<close>,
  and let neither call meet an error: in each call both \<open>open\<close> calls succeed and
  \<open>json.dump\<close> completes on the list it is given. After \<open>save_tweets_to_file\<close> with
  batch \<open>A\<close> and then with batch \<open>B\<close>, on the same day and with nothing else touching the
  files, the day's file holds \<open>P\<close> followed by \<open>A\<close> followed by \<open>B\<close>, in order, and every
  other file is as before.
\<close>

theorem append_twice:
  assumes "fs (tweets_filename today) = None \<and> P = [] \<or> fs (tweets_filename today) = Some (Parsed (JList P))"
    and "\<not> open_read_raises io" and "\<not> open_write_raises io"
    and "json_dump_raises io (JList (P @ A)) = None"
    and "\<not> open_read_raises io'" and "\<not> open_write_raises io'"
    and "json_dump_raises io' (JList (P @ A @ B)) = None"
  shows "fst (save_tweets_to_file io' today (fst (save_tweets_to_file io today fs A)) B) =
           fs(tweets_filename today \<mapsto> Parsed (JList (P @ A @ B)))"
proof -
  let ?fs1 = "fst (save_tweets_to_file io today fs A)"
  have one: "?fs1 = fs(tweets_filename today \<mapsto> Parsed (JList (P @ A)))"
    using assms(1-4) by (rule save_to_list [where fs = fs and today = today and P = P])
  then have prior: "?fs1 (tweets_filename today) = None \<and> P @ A = []
      \<or> ?fs1 (tweets_filename today) = Some (Parsed (JList (P @ A)))"
    by simp
  from assms(7) have dump: "json_dump_raises io' (JList ((P @ A) @ B)) = None" by simp
  from save_to_list [where fs = ?fs1 and today = today and P = "P @ A" and tweets = B and io = io',
      OF prior assms(5,6) dump] one
  show ?thesis by simp
qed

theorem append_twice_witness:
  "fst (save_tweets_to_file utf8_io ''20240101''
         (fst (save_tweets_to_file utf8_io ''20240101''
                [''tweets_20240101.json'' \<mapsto> Parsed (JList [JObj [(''id'', JStr ''0'')]])]
                [JObj [(''id'', JStr ''1'')]]))
         [JObj [(''id'', JStr ''2'')], JObj [(''id'', JStr ''3'')]]) ''tweets_20240101.json''
     = Some (Parsed (JList [JObj [(''id'', JStr ''0'')], JObj [(''id'', JStr ''1'')],
                            JObj [(''id'', JStr ''2'')], JObj [(''id'', JStr ''3'')]]))
   \<and> fst (save_tweets_to_file utf8_io ''20240101''
         (fst (save_tweets_to_file utf8_io ''20240101'' Map.empty [JObj [(''id'', JStr ''1'')]]))
         [JObj [(''id'', JStr ''2'')]]) ''tweets_20240101.json''
     = Some (Parsed (JList [JObj [(''id'', JStr ''1'')], JObj [(''id'', JStr ''2'')]]))"
proof -
  have n: "tweets_filename ''20240101'' = ''tweets_20240101.json''"
    by (simp add: tweets_filename_def)
  have o: "\<not> open_read_raises utf8_io" "\<not> open_write_raises utf8_io"
    by (simp_all add: utf8_io_def)
  have h1: "[''tweets_20240101.json'' \<mapsto> Parsed (JList [JObj [(''id'', JStr ''0'')]])] (tweets_filename ''20240101'') = None
        \<and> [JObj [(''id'', JStr ''0'')]] = []
      \<or> [''tweets_20240101.json'' \<mapsto> Parsed (JList [JObj [(''id'', JStr ''0'')]])] (tweets_filename ''20240101'')
          = Some (Parsed (JList [JObj [(''id'', JStr ''0'')]]))"
    by (simp add: n)
  have d1: "json_dump_raises utf8_io (JList ([JObj [(''id'', JStr ''0'')]] @ [JObj [(''id'', JStr ''1'')]])) = None"
    "json_dump_raises utf8_io (JList ([JObj [(''id'', JStr ''0'')]] @ [JObj [(''id'', JStr ''1'')]]
        @ [JObj [(''id'', JStr ''2'')], JObj [(''id'', JStr ''3'')]])) = None"
    by (simp_all add: utf8_io_def)
  have h2: "(Map.empty :: files) (tweets_filename ''20240101'') = None \<and> ([] :: json list) = []
      \<or> (Map.empty :: files) (tweets_filename ''20240101'') = Some (Parsed (JList []))"
    by simp
  have d2: "json_dump_raises utf8_io (JList ([] @ [JObj [(''id'', JStr ''1'')]])) = None"
    "json_dump_raises utf8_io (JList ([] @ [JObj [(''id'', JStr ''1'')]] @ [JObj [(''id'', JStr ''2'')]])) = None"
    by (simp_all add: utf8_io_def)
  from append_twice [where fs = "[''tweets_20240101.json'' \<mapsto> Parsed (JList [JObj [(''id'', JStr ''0'')]])]"
        and today = "''20240101''" and P = "[JObj [(''id'', JStr ''0'')]]" and io = utf8_io and io' = utf8_io
        and A = "[JObj [(''id'', JStr ''1'')]]" and B = "[JObj [(''id'', JStr ''2'')], JObj [(''id'', JStr ''3'')]]",
        OF h1 o d1(1) o d1(2)]
    append_twice [where fs = Map.empty and today = "''20240101''" and P = "[]" and io = utf8_io and io' = utf8_io
        and A = "[JObj [(''id'', JStr ''1'')]]" and B = "[JObj [(''id'', JStr ''2'')]]",
        OF h2 o d2(1) o d2(2)]
  show ?thesis by (simp add: n)
qed

text \<open>
  Claim C5, as amended. \<open>save_tweets_to_file\<close> returns \<open>None\<close> for every batch and in
  every environment, on the error paths as on the normal one; it never returns a count.
  When the call meets no error (the day's file is missing or holds a list \<open>P\<close>, both
  \<open>open\<close> calls succeed and \<open>json.dump\<close> completes), the day's file holds afterwards a
  list of \<open>length P + length tweets\<close> records.
\<close>

theorem append_returns_none:
  "snd (save_tweets_to_file io today fs tweets) = JNull
   \<and> ((fs (tweets_filename today) = None \<and> P = [] \<or> fs (tweets_filename today) = Some (Parsed (JList P)))
        \<and> \<not> open_read_raises io \<and> \<not> open_write_raises io
        \<and> json_dump_raises io (JList (P @ tweets)) = None
       \<longrightarrow> (\<exists>Q. fst (save_tweets_to_file io today fs tweets) (tweets_filename today) = Some (Parsed (JList Q))
              \<and> length Q = length P + length tweets))"
proof -
  have a: "snd (save_tweets_to_file io today fs tweets) = JNull"
    by (simp add: save_tweets_to_file_def split: sum.splits prod.splits)
  have b: "\<exists>Q. fst (save_tweets_to_file io today fs tweets) (tweets_filename today) = Some (Parsed (JList Q))
              \<and> length Q = length P + length tweets"
    if "fs (tweets_filename today) = None \<and> P = [] \<or> fs (tweets_filename today) = Some (Parsed (JList P))"
      and "\<not> open_read_raises io" and "\<not> open_write_raises io"
      and "json_dump_raises io (JList (P @ tweets)) = None"
    using save_to_list [where fs = fs and today = today and P = P and tweets = tweets and io = io,
        OF that]
    by simp
  from a b show ?thesis by blast
qed

theorem append_returns_none_witness:
  "snd (save_tweets_to_file utf8_io ''20240101'' Map.empty [JObj [(''id'', JStr ''1'')], JObj [(''id'', JStr ''2'')]]) = JNull
   \<and> (\<exists>Q. fst (save_tweets_to_file utf8_io ''20240101'' Map.empty [JObj [(''id'', JStr ''1'')], JObj [(''id'', JStr ''2'')]])
            (tweets_filename ''20240101'') = Some (Parsed (JList Q))
          \<and> length Q = Suc (Suc 0))"
  using append_returns_none [of utf8_io "''20240101''" Map.empty
      "[JObj [(''id'', JStr ''1'')], JObj [(''id'', JStr ''2'')]]" "[]"]
  by (simp add: utf8_io_def)

text \<open>
  The claim as stated fails: one record is written to the day's file, and the value
  returned is \<open>None\<close>, not the count 1.
\<close>

theorem append_returns_count_counterexample:
  "snd (save_tweets_to_file utf8_io ''20240101'' Map.empty [JObj [(''id'', JStr ''1'')]]) = JNull
   \<and> snd (save_tweets_to_file utf8_io ''20240101'' Map.empty [JObj [(''id'', JStr ''1'')]]) \<noteq> JInt 1
   \<and> fst (save_tweets_to_file utf8_io ''20240101'' Map.empty [JObj [(''id'', JStr ''1'')]]) ''tweets_20240101.json''
       = Some (Parsed (JList [JObj [(''id'', JStr ''1'')]]))"
  by (simp add: save_tweets_to_file_def save_tweets_try_def tweets_filename_def utf8_io_def)

section \<open>Properties of the request handler\<close>

text \<open>The handlers after the authentication check, by its outcome.\<close>

lemma handler_unauthorized:
  "\<not> fst (verify_webhook_request API_KEY (headers req)) \<Longrightarrow>
   webhook_handler API_KEY io today req fs = ((JObj [(''error'', JStr ''Unauthorized'')], 401), fs)"
  by (cases "verify_webhook_request API_KEY (headers req)") (simp add: webhook_handler_def)

lemma handler_sl_unauthorized:
  "\<not> fst (verify_webhook_request_sl API_KEY (headers req)) \<Longrightarrow>
   webhook_handler_sl API_KEY clock timestamp req = (JObj [(''error'', JStr ''Unauthorized'')], 401)"
  by (cases "verify_webhook_request_sl API_KEY (headers req)") (simp add: webhook_handler_sl_def)

lemma handler_authorized:
  "fst (verify_webhook_request API_KEY (headers req)) \<Longrightarrow>
   webhook_handler API_KEY io today req fs =
     (case get_json req of
        Inl e \<Rightarrow> ((JObj [(''error'', JStr ''Internal server error'')], 500), fs)
      | Inr webhook_data \<Rightarrow>
          if \<not> truthy webhook_data then
            ((JObj [(''error'', JStr ''No JSON data provided'')], 400), fs)
          else if process_tweet_data webhook_data \<noteq> [] then
            ((JObj [(''status'', JStr ''success''),
                    (''message'', JStr (''Processed '' @ str_nat (length (process_tweet_data webhook_data)) @ '' tweets'')),
                    (''tweets_count'', JInt (int (length (process_tweet_data webhook_data))))], 200),
             fst (save_tweets_to_file io today fs (process_tweet_data webhook_data)))
          else
            ((JObj [(''status'', JStr ''success''),
                    (''message'', JStr ''No tweets to process'')], 200), fs))"
  by (cases "verify_webhook_request API_KEY (headers req)")
     (simp add: webhook_handler_def Let_def split: sum.splits)

lemma handler_sl_authorized:
  "fst (verify_webhook_request_sl API_KEY (headers req)) \<Longrightarrow>
   webhook_handler_sl API_KEY clock timestamp req =
     (case get_json req of
        Inl e \<Rightarrow> (JObj [(''error'', JStr ''Internal server error''), (''timestamp'', JStr timestamp)], 500)
      | Inr webhook_data \<Rightarrow>
          if \<not> truthy webhook_data then
            (JObj [(''error'', JStr ''No JSON data provided'')], 400)
          else if process_tweet_data_sl clock webhook_data \<noteq> [] then
            (JObj [(''status'', JStr ''success''),
                   (''message'', JStr (''Processed '' @ str_nat (length (process_tweet_data_sl clock webhook_data)) @ '' tweets'')),
                   (''tweets_count'', JInt (int (length (process_tweet_data_sl clock webhook_data)))),
                   (''timestamp'', JStr timestamp)], 200)
          else
            (JObj [(''status'', JStr ''success''),
                   (''message'', JStr ''No tweets to process''),
                   (''timestamp'', JStr timestamp)], 200))"
  by (cases "verify_webhook_request_sl API_KEY (headers req)")
     (simp add: webhook_handler_sl_def Let_def split: sum.splits)

lemma verify_fails:
  "headers req ''X-API-Key'' = None \<or> headers req ''X-API-Key'' = Some []
     \<or> (\<exists>v. headers req ''X-API-Key'' = Some v \<and> API_KEY \<noteq> Some v) \<Longrightarrow>
   \<not> fst (verify_webhook_request API_KEY (headers req))
   \<and> \<not> fst (verify_webhook_request_sl API_KEY (headers req))"
  by (auto simp: verify_webhook_request_def verify_webhook_request_sl_def str_truthy_def Let_def)

lemma verify_passes:
  "headers req ''X-API-Key'' = Some k \<Longrightarrow> API_KEY = Some k \<Longrightarrow> k \<noteq> [] \<Longrightarrow>
   fst (verify_webhook_request API_KEY (headers req))
   \<and> fst (verify_webhook_request_sl API_KEY (headers req))"
  by (simp add: verify_webhook_request_def verify_webhook_request_sl_def str_truthy_def)

lemma process_no_tweets:
  "dict_get d ''tweets'' (JList []) = JList [] \<Longrightarrow>
   process_tweet_data (JObj d) = [] \<and> process_tweet_data_sl clock (JObj d) = []"
  by (simp add: process_tweet_data_def process_tweet_data_sl_def process_try_dict process_sl_try_dict)

text \<open>
  Claim C6, as amended. In both variants: a request with no \<open>X-API-Key\<close> header is
  answered 401; so is one whose header differs from the configured key, and one whose
  header is present with the empty value, whatever the key; and a request whose header is
  not empty and equals the key, and whose body is a non-empty JSON object with zero tweet
  entries (\<open>tweets\<close> missing or the empty list), is answered 200 with the body
  \<open>{status: success, message: No tweets to process}\<close> (plus \<open>timestamp\<close> in the
  serverless variant), which has no \<open>tweets_count\<close> key; the files are unchanged.
\<close>

theorem webhook_auth_and_empty_batch:
  "(headers req ''X-API-Key'' = None \<longrightarrow>
      webhook_handler API_KEY io today req fs = ((JObj [(''error'', JStr ''Unauthorized'')], 401), fs)
      \<and> webhook_handler_sl API_KEY clock timestamp req = (JObj [(''error'', JStr ''Unauthorized'')], 401))
   \<and> (headers req ''X-API-Key'' = Some v \<and> API_KEY \<noteq> Some v \<longrightarrow>
      webhook_handler API_KEY io today req fs = ((JObj [(''error'', JStr ''Unauthorized'')], 401), fs)
      \<and> webhook_handler_sl API_KEY clock timestamp req = (JObj [(''error'', JStr ''Unauthorized'')], 401))
   \<and> (headers req ''X-API-Key'' = Some [] \<longrightarrow>
      webhook_handler API_KEY io today req fs = ((JObj [(''error'', JStr ''Unauthorized'')], 401), fs)
      \<and> webhook_handler_sl API_KEY clock timestamp req = (JObj [(''error'', JStr ''Unauthorized'')], 401))
   \<and> (headers req ''X-API-Key'' = Some k \<and> API_KEY = Some k \<and> k \<noteq> []
        \<and> get_json req = Inr (JObj d) \<and> d \<noteq> [] \<and> dict_get d ''tweets'' (JList []) = JList [] \<longrightarrow>
      webhook_handler API_KEY io today req fs =
        ((JObj [(''status'', JStr ''success''), (''message'', JStr ''No tweets to process'')], 200), fs)
      \<and> webhook_handler_sl API_KEY clock timestamp req =
        (JObj [(''status'', JStr ''success''), (''message'', JStr ''No tweets to process''),
               (''timestamp'', JStr timestamp)], 200)
      \<and> py_item (fst (fst (webhook_handler API_KEY io today req fs))) ''tweets_count'' = Inl KeyError
      \<and> py_item (fst (webhook_handler_sl API_KEY clock timestamp req)) ''tweets_count'' = Inl KeyError)"
proof -
  have a: "webhook_handler API_KEY io today req fs = ((JObj [(''error'', JStr ''Unauthorized'')], 401), fs)
      \<and> webhook_handler_sl API_KEY clock timestamp req = (JObj [(''error'', JStr ''Unauthorized'')], 401)"
    if "headers req ''X-API-Key'' = None \<or> headers req ''X-API-Key'' = Some []
       \<or> (\<exists>v. headers req ''X-API-Key'' = Some v \<and> API_KEY \<noteq> Some v)"
    using verify_fails [OF that] handler_unauthorized handler_sl_unauthorized by blast
  have b: "webhook_handler API_KEY io today req fs =
        ((JObj [(''status'', JStr ''success''), (''message'', JStr ''No tweets to process'')], 200), fs)
      \<and> webhook_handler_sl API_KEY clock timestamp req =
        (JObj [(''status'', JStr ''success''), (''message'', JStr ''No tweets to process''),
               (''timestamp'', JStr timestamp)], 200)
      \<and> py_item (fst (fst (webhook_handler API_KEY io today req fs))) ''tweets_count'' = Inl KeyError
      \<and> py_item (fst (webhook_handler_sl API_KEY clock timestamp req)) ''tweets_count'' = Inl KeyError"
    if h: "headers req ''X-API-Key'' = Some k" "API_KEY = Some k" "k \<noteq> []"
      and j: "get_json req = Inr (JObj d)" "d \<noteq> []" and t: "dict_get d ''tweets'' (JList []) = JList []"
  proof -
    note v = verify_passes [OF h]
    note p = process_no_tweets [OF t, of clock]
    have 1: "webhook_handler API_KEY io today req fs =
        ((JObj [(''status'', JStr ''success''), (''message'', JStr ''No tweets to process'')], 200), fs)"
      using v p j by (simp add: handler_authorized)
    have 2: "webhook_handler_sl API_KEY clock timestamp req =
        (JObj [(''status'', JStr ''success''), (''message'', JStr ''No tweets to process''),
               (''timestamp'', JStr timestamp)], 200)"
      using v p j by (simp add: handler_sl_authorized)
    show ?thesis unfolding 1 2 by simp
  qed
  from a b show ?thesis by blast
qed


theorem webhook_auth_and_empty_batch_witness:
  "webhook_handler (Some ''secret123'') utf8_io ''20240101''
      \<lparr>headers = Map.empty, get_json = Inr (JObj [(''rule_id'', JStr ''r1''), (''tweets'', JList [])])\<rparr> Map.empty
     = ((JObj [(''error'', JStr ''Unauthorized'')], 401), Map.empty)
   \<and> webhook_handler_sl (Some ''secret123'') (still_clock ''2024-01-01T00:00:00'') ''2024-01-01T00:00:01''
      \<lparr>headers = [''X-API-Key'' \<mapsto> ''guess''], get_json = Inr (JObj [(''rule_id'', JStr ''r1''), (''tweets'', JList [])])\<rparr>
     = (JObj [(''error'', JStr ''Unauthorized'')], 401)
   \<and> webhook_handler_sl (Some '''') (still_clock ''2024-01-01T00:00:00'') ''2024-01-01T00:00:01''
      \<lparr>headers = [''X-API-Key'' \<mapsto> ''''], get_json = Inr (JObj [(''rule_id'', JStr ''r1''), (''tweets'', JList [])])\<rparr>
     = (JObj [(''error'', JStr ''Unauthorized'')], 401)
   \<and> webhook_handler (Some ''secret123'') utf8_io ''20240101''
      \<lparr>headers = [''X-API-Key'' \<mapsto> ''secret123''], get_json = Inr (JObj [(''rule_id'', JStr ''r1''), (''tweets'', JList [])])\<rparr> Map.empty
     = ((JObj [(''status'', JStr ''success''), (''message'', JStr ''No tweets to process'')], 200), Map.empty)
   \<and> webhook_handler_sl (Some ''secret123'') (still_clock ''2024-01-01T00:00:00'') ''2024-01-01T00:00:01''
      \<lparr>headers = [''X-API-Key'' \<mapsto> ''secret123''], get_json = Inr (JObj [(''rule_id'', JStr ''r1''), (''tweets'', JList [])])\<rparr>
     = (JObj [(''status'', JStr ''success''), (''message'', JStr ''No tweets to process''),
              (''timestamp'', JStr ''2024-01-01T00:00:01'')], 200)"
  using webhook_auth_and_empty_batch [of
      "\<lparr>headers = [''X-API-Key'' \<mapsto> ''''], get_json = Inr (JObj [(''rule_id'', JStr ''r1''), (''tweets'', JList [])])\<rparr>"
      "Some ''''" utf8_io "''20240101''" Map.empty "still_clock ''2024-01-01T00:00:00''" "''2024-01-01T00:00:01''"
      "''guess''" "''secret123''" "[(''rule_id'', JStr ''r1''), (''tweets'', JList [])]"]
    webhook_auth_and_empty_batch [of
      "\<lparr>headers = Map.empty, get_json = Inr (JObj [(''rule_id'', JStr ''r1''), (''tweets'', JList [])])\<rparr>"
      "Some ''secret123''" utf8_io "''20240101''" Map.empty "still_clock ''2024-01-01T00:00:00''" "''2024-01-01T00:00:01''"
      "''guess''" "''secret123''" "[(''rule_id'', JStr ''r1''), (''tweets'', JList [])]"]
    webhook_auth_and_empty_batch [of
      "\<lparr>headers = [''X-API-Key'' \<mapsto> ''guess''], get_json = Inr (JObj [(''rule_id'', JStr ''r1''), (''tweets'', JList [])])\<rparr>"
      "Some ''secret123''" utf8_io "''20240101''" Map.empty "still_clock ''2024-01-01T00:00:00''" "''2024-01-01T00:00:01''"
      "''guess''" "''secret123''" "[(''rule_id'', JStr ''r1''), (''tweets'', JList [])]"]
    webhook_auth_and_empty_batch [of
      "\<lparr>headers = [''X-API-Key'' \<mapsto> ''secret123''], get_json = Inr (JObj [(''rule_id'', JStr ''r1''), (''tweets'', JList [])])\<rparr>"
      "Some ''secret123''" utf8_io "''20240101''" Map.empty "still_clock ''2024-01-01T00:00:00''" "''2024-01-01T00:00:01''"
      "''guess''" "''secret123''" "[(''rule_id'', JStr ''r1''), (''tweets'', JList [])]"]
  by (simp add: dict_get_def)

text \<open>
  The claim as stated fails on its third part: with the right key and the body
  \<open>{"rule_id": "r1", "tweets": []}\<close> the answer is 200 but its body has no
  \<open>tweets_count\<close>; with the body \<open>{}\<close>, valid JSON with zero tweets, the answer is
  400, because the empty dictionary is false in \<open>if not webhook_data\<close>; and in the
  serverless variant with the key set to the empty string, a header equal to it is
  answered 401.
\<close>

theorem webhook_zero_tweets_counterexample:
  "webhook_handler (Some ''secret123'') utf8_io ''20240101''
      \<lparr>headers = [''X-API-Key'' \<mapsto> ''secret123''], get_json = Inr (JObj [(''rule_id'', JStr ''r1''), (''tweets'', JList [])])\<rparr> Map.empty
     = ((JObj [(''status'', JStr ''success''), (''message'', JStr ''No tweets to process'')], 200), Map.empty)
   \<and> py_item (JObj [(''status'', JStr ''success''), (''message'', JStr ''No tweets to process'')]) ''tweets_count''
       = Inl KeyError
   \<and> webhook_handler_sl (Some ''secret123'') (still_clock ''2024-01-01T00:00:00'') ''2024-01-01T00:00:01''
      \<lparr>headers = [''X-API-Key'' \<mapsto> ''secret123''], get_json = Inr (JObj [(''rule_id'', JStr ''r1''), (''tweets'', JList [])])\<rparr>
     = (JObj [(''status'', JStr ''success''), (''message'', JStr ''No tweets to process''),
              (''timestamp'', JStr ''2024-01-01T00:00:01'')], 200)
   \<and> webhook_handler (Some ''secret123'') utf8_io ''20240101''
      \<lparr>headers = [''X-API-Key'' \<mapsto> ''secret123''], get_json = Inr (JObj [])\<rparr> Map.empty
     = ((JObj [(''error'', JStr ''No JSON data provided'')], 400), Map.empty)
   \<and> webhook_handler_sl (Some ''secret123'') (still_clock ''2024-01-01T00:00:00'') ''2024-01-01T00:00:01''
      \<lparr>headers = [''X-API-Key'' \<mapsto> ''secret123''], get_json = Inr (JObj [])\<rparr>
     = (JObj [(''error'', JStr ''No JSON data provided'')], 400)
   \<and> webhook_handler_sl (Some '''') (still_clock ''2024-01-01T00:00:00'') ''2024-01-01T00:00:01''
      \<lparr>headers = [''X-API-Key'' \<mapsto> ''''], get_json = Inr (JObj [(''rule_id'', JStr ''r1''), (''tweets'', JList [])])\<rparr>
     = (JObj [(''error'', JStr ''Unauthorized'')], 401)"
  by (simp add: webhook_handler_def webhook_handler_sl_def verify_webhook_request_def
      verify_webhook_request_sl_def str_truthy_def dict_get_def
      process_tweet_data_def process_tweet_data_try_def
      process_tweet_data_sl_def process_tweet_data_sl_try_def)

text \<open>
  Claim C7, as amended. For a request that passes authentication: when
  \<open>request.get_json()\<close> returns \<open>None\<close> or another false value, the answer is 400 with
  \<open>No JSON data provided\<close>; when \<open>request.get_json()\<close> raises, the handler's own
  \<open>except Exception\<close> answers 500. In both cases neither normalisation nor persistence
  has run: the response is fixed and the files are unchanged. Both variants.
\<close>

theorem webhook_no_json_body:
  "(fst (verify_webhook_request API_KEY (headers req)) \<and> get_json req = Inr v \<and> \<not> truthy v \<longrightarrow>
      webhook_handler API_KEY io today req fs = ((JObj [(''error'', JStr ''No JSON data provided'')], 400), fs))
   \<and> (fst (verify_webhook_request_sl API_KEY (headers req)) \<and> get_json req = Inr v \<and> \<not> truthy v \<longrightarrow>
      webhook_handler_sl API_KEY clock timestamp req = (JObj [(''error'', JStr ''No JSON data provided'')], 400))
   \<and> (fst (verify_webhook_request API_KEY (headers req)) \<and> get_json req = Inl e \<longrightarrow>
      webhook_handler API_KEY io today req fs = ((JObj [(''error'', JStr ''Internal server error'')], 500), fs))
   \<and> (fst (verify_webhook_request_sl API_KEY (headers req)) \<and> get_json req = Inl e \<longrightarrow>
      webhook_handler_sl API_KEY clock timestamp req =
        (JObj [(''error'', JStr ''Internal server error''), (''timestamp'', JStr timestamp)], 500))"
  by (simp add: handler_authorized handler_sl_authorized)

theorem webhook_no_json_body_witness:
  "webhook_handler (Some ''secret123'') utf8_io ''20240101''
      \<lparr>headers = [''X-API-Key'' \<mapsto> ''secret123''], get_json = Inr JNull\<rparr>
      [''tweets_20240101.json'' \<mapsto> Parsed (JList [])]
     = ((JObj [(''error'', JStr ''No JSON data provided'')], 400), [''tweets_20240101.json'' \<mapsto> Parsed (JList [])])
   \<and> webhook_handler_sl (Some ''secret123'') (still_clock ''2024-01-01T00:00:00'') ''2024-01-01T00:00:01''
      \<lparr>headers = [''X-API-Key'' \<mapsto> ''secret123''], get_json = Inr JNull\<rparr>
     = (JObj [(''error'', JStr ''No JSON data provided'')], 400)
   \<and> webhook_handler (Some ''secret123'') utf8_io ''20240101''
      \<lparr>headers = [''X-API-Key'' \<mapsto> ''secret123''], get_json = Inl HTTPException\<rparr>
      [''tweets_20240101.json'' \<mapsto> Parsed (JList [])]
     = ((JObj [(''error'', JStr ''Internal server error'')], 500), [''tweets_20240101.json'' \<mapsto> Parsed (JList [])])"
proof -
  have v: "fst (verify_webhook_request (Some ''secret123'') [''X-API-Key'' \<mapsto> ''secret123''])"
    "fst (verify_webhook_request_sl (Some ''secret123'') [''X-API-Key'' \<mapsto> ''secret123''])"
    by (simp_all add: verify_webhook_request_def verify_webhook_request_sl_def str_truthy_def)
  from v webhook_no_json_body [of "Some ''secret123''"
      "\<lparr>headers = [''X-API-Key'' \<mapsto> ''secret123''], get_json = Inr JNull\<rparr>" JNull
      utf8_io "''20240101''" "[''tweets_20240101.json'' \<mapsto> Parsed (JList [])]"
      "still_clock ''2024-01-01T00:00:00''" "''2024-01-01T00:00:01''" HTTPException]
    webhook_no_json_body [of "Some ''secret123''"
      "\<lparr>headers = [''X-API-Key'' \<mapsto> ''secret123''], get_json = Inl HTTPException\<rparr>" JNull
      utf8_io "''20240101''" "[''tweets_20240101.json'' \<mapsto> Parsed (JList [])]"
      "still_clock ''2024-01-01T00:00:00''" "''2024-01-01T00:00:01''" HTTPException]
  show ?thesis by simp
qed

text \<open>
  The claim as stated fails for a body on which \<open>request.get_json()\<close> raises, as the
  framework does when the body does not parse: the request passes authentication and the
  answer is 500, not 400.
\<close>

theorem webhook_get_json_raises_counterexample:
  "fst (verify_webhook_request (Some ''secret123'') [''X-API-Key'' \<mapsto> ''secret123''])
   \<and> webhook_handler (Some ''secret123'') utf8_io ''20240101''
      \<lparr>headers = [''X-API-Key'' \<mapsto> ''secret123''], get_json = Inl HTTPException\<rparr> Map.empty
     = ((JObj [(''error'', JStr ''Internal server error'')], 500), Map.empty)
   \<and> snd (fst (webhook_handler (Some ''secret123'') utf8_io ''20240101''
      \<lparr>headers = [''X-API-Key'' \<mapsto> ''secret123''], get_json = Inl HTTPException\<rparr> Map.empty)) \<noteq> 400
   \<and> webhook_handler_sl (Some ''secret123'') (still_clock ''2024-01-01T00:00:00'') ''2024-01-01T00:00:01''
      \<lparr>headers = [''X-API-Key'' \<mapsto> ''secret123''], get_json = Inl HTTPException\<rparr>
     = (JObj [(''error'', JStr ''Internal server error''), (''timestamp'', JStr ''2024-01-01T00:00:01'')], 500)"
  by (simp add: webhook_handler_def webhook_handler_sl_def verify_webhook_request_def
      verify_webhook_request_sl_def str_truthy_def)

end
